theory Spec2Isabelle
  imports Main "HOL-Library.AList"
begin

section \<open>Data model\<close>

subsection \<open>Schema documents\<close>

text \<open>
  A fragment of the target document (\<^verbatim>\<open>oas31.SchemaObject | oas31.ReferenceObject\<close>)
  is a JavaScript object. It is kept as the list of its own entries in insertion order;
  values are JSON values. The statements of the claims read a fragment through
  \<open>map_of\<close>, so they do not depend on the order of the entries.
\<close>

datatype json =
    JNull
  | JBool bool
  | JNumber int
  | JString string
  | JArray "json list"
  | JObject "(string \<times> json) list"

type_synonym schema_object = "(string \<times> json) list"

text \<open>JavaScript truthiness of a value (\<^verbatim>\<open>if (x)\<close>, \<^verbatim>\<open>x && y\<close>).\<close>

fun truthy :: "json \<Rightarrow> bool" where
  "truthy JNull = False"
| "truthy (JBool b) = b"
| "truthy (JNumber n) = (n \<noteq> 0)"
| "truthy (JString s) = (s \<noteq> [])"
| "truthy (JArray xs) = True"
| "truthy (JObject kvs) = True"

text \<open>
  Object spread \<^verbatim>\<open>{...target, ...src}\<close>: every entry of \<open>src\<close> is assigned in turn; an
  assignment to a key that is present replaces its value in place, an assignment to a
  new key appends it. Spreading \<^verbatim>\<open>undefined\<close>, \<^verbatim>\<open>false\<close> or \<^verbatim>\<open>0\<close> adds nothing.
\<close>

definition assign :: "schema_object \<Rightarrow> schema_object \<Rightarrow> schema_object" where
  "assign target src = fold (\<lambda>(k, v). AList.update k v) src target"

fun spread :: "schema_object \<Rightarrow> schema_object option \<Rightarrow> schema_object" where
  "spread target None = target"
| "spread target (Some src) = assign target src"

subsection \<open>Schema nodes\<close>

text \<open>
  Every zod schema is a JavaScript object with an identity. A node carries an
  identifier \<open>zid\<close> standing for that identity (\<^verbatim>\<open>===\<close> compares it, and the registry
  of the object composer is keyed by it) and the metadata \<^verbatim>\<open>_def.openapi\<close>.
\<close>

record node =
  zid :: nat
  openapi :: "schema_object option"

datatype unknown_keys = Passthrough | Strict | Strip

datatype effect_type = Refinement | Transform | Preprocess

text \<open>
  The classes of the dispatcher's \<^verbatim>\<open>instanceof\<close> chain, the two sentinels the object
  composer tests for, and \<open>ZodAny\<close> for the classes no arm of the dispatcher names.
\<close>

datatype zod =
    ZodString node
  | ZodNumber node
  | ZodBoolean node
  | ZodEnum node
  | ZodLiteral node
  | ZodNativeEnum node
  | ZodArray node zod
  | ZodObject zod_object
  | ZodUnion node "zod list"
  | ZodDiscriminatedUnion node "zod list"
  | ZodNull node
  | ZodNullable node zod
  | ZodOptional node zod
  | ZodDefault node zod
  | ZodRecord node zod
  | ZodTuple node "zod list"
  | ZodDate node
  | ZodEffects node effect_type zod
  | ZodNever node
  | ZodUndefined node
  | ZodAny node
and zod_object =
    Object (onode: node) (shape: "(string \<times> zod) list") (unknownKeys: unknown_keys)
      (catchall: zod) (extends: "zod_object option")

fun node_of :: "zod \<Rightarrow> node" where
  "node_of (ZodString n) = n"
| "node_of (ZodNumber n) = n"
| "node_of (ZodBoolean n) = n"
| "node_of (ZodEnum n) = n"
| "node_of (ZodLiteral n) = n"
| "node_of (ZodNativeEnum n) = n"
| "node_of (ZodArray n _) = n"
| "node_of (ZodObject obj) = onode obj"
| "node_of (ZodUnion n _) = n"
| "node_of (ZodDiscriminatedUnion n _) = n"
| "node_of (ZodNull n) = n"
| "node_of (ZodNullable n _) = n"
| "node_of (ZodOptional n _) = n"
| "node_of (ZodDefault n _) = n"
| "node_of (ZodRecord n _) = n"
| "node_of (ZodTuple n _) = n"
| "node_of (ZodDate n) = n"
| "node_of (ZodEffects n _ _) = n"
| "node_of (ZodNever n) = n"
| "node_of (ZodUndefined n) = n"
| "node_of (ZodAny n) = n"

text \<open>\<^verbatim>\<open>a === b\<close> on two schema nodes.\<close>

definition identical :: "zod \<Rightarrow> zod \<Rightarrow> bool" where
  "identical a b = (zid (node_of a) = zid (node_of b))"

text \<open>\<^verbatim>\<open>zodSchema._def.openapi?.ref\<close> and \<^verbatim>\<open>zodSchema._def.openapi?.type\<close>.\<close>

definition openapi_field :: "node \<Rightarrow> string \<Rightarrow> json option" where
  "openapi_field n k = (case openapi n of None \<Rightarrow> None | Some m \<Rightarrow> map_of m k)"

text \<open>Truthiness of an optional property: \<^verbatim>\<open>undefined\<close> is falsy.\<close>

definition truthy_opt :: "json option \<Rightarrow> bool" where
  "truthy_opt v = (case v of None \<Rightarrow> False | Some j \<Rightarrow> truthy j)"

subsection \<open>Effects, result fragments and the recursion state\<close>

text \<open>\<^verbatim>\<open>state.type\<close>, also the \<^verbatim>\<open>creationType\<close> of a schema effect.\<close>

datatype creation_type = Input | Output

text \<open>
  \<^verbatim>\<open>{ type: 'schema', creationType, zodType, path }\<close> and
  \<^verbatim>\<open>{ type: 'component', zodType, path }\<close>; \<^verbatim>\<open>zodType\<close> is a reference to a node, kept
  as the node's identifier.
\<close>

datatype effect =
    SchemaEffect creation_type nat "string list"
  | ComponentEffect nat "string list"

text \<open>
  A result fragment \<^verbatim>\<open>Schema\<close>: its \<^verbatim>\<open>type\<close> (\<^verbatim>\<open>'schema'\<close> or \<^verbatim>\<open>'ref'\<close>) is the field
  \<open>kind\<close>; \<^verbatim>\<open>effects\<close> is optional.
\<close>

datatype schema_kind = KSchema | KRef

record Schema =
  kind :: schema_kind
  schema :: schema_object
  effects :: "effect list option"

text \<open>
  Modelled from the spec: the type declarations of the registry (\<^verbatim>\<open>components.ts\<close>) are
  not among the sources. An entry of \<^verbatim>\<open>state.components.schemas\<close> is in progress or
  complete, carries its \<^verbatim>\<open>ref\<close> name and, when complete, its effects. \<open>Manual\<close> stands
  for any other value of \<^verbatim>\<open>type\<close>, which the two tests of \<^verbatim>\<open>createExtendedSchema\<close>
  leave without effects. The registry is a \<^verbatim>\<open>Map\<close> keyed by node identity; an entry is
  read as a value at the moment of \<^verbatim>\<open>get\<close>.
\<close>

datatype component_type = Complete | InProgress | Manual

record SchemaComponent =
  ctype :: component_type
  ref :: string
  ceffects :: "effect list option"

text \<open>
  The recursion state \<^verbatim>\<open>SchemaState\<close>, as far as the composer reads it: \<open>schemas\<close> is
  \<^verbatim>\<open>state.components.schemas\<close>, \<open>stype\<close> is \<^verbatim>\<open>state.type\<close>, \<open>componentRefPath\<close> is
  \<^verbatim>\<open>state.documentOptions?.componentRefPath\<close>.
\<close>

record SchemaState =
  schemas :: "(nat \<times> SchemaComponent) list"
  stype :: creation_type
  path :: "string list"
  componentRefPath :: "string option"

text \<open>The errors of the spec's taxonomy; every \<^verbatim>\<open>throw\<close> is one of them.\<close>

datatype error = UnrecognizedSchemaKind | DuplicateRef | UnexpectedReferenceFragment

section \<open>Collaborators of the object composer\<close>

text \<open>The variant tag of a node, \<^verbatim>\<open>_def.typeName\<close>.\<close>

fun typeName :: "zod \<Rightarrow> string" where
  "typeName (ZodString _) = ''ZodString''"
| "typeName (ZodNumber _) = ''ZodNumber''"
| "typeName (ZodBoolean _) = ''ZodBoolean''"
| "typeName (ZodEnum _) = ''ZodEnum''"
| "typeName (ZodLiteral _) = ''ZodLiteral''"
| "typeName (ZodNativeEnum _) = ''ZodNativeEnum''"
| "typeName (ZodArray _ _) = ''ZodArray''"
| "typeName (ZodObject _) = ''ZodObject''"
| "typeName (ZodUnion _ _) = ''ZodUnion''"
| "typeName (ZodDiscriminatedUnion _ _) = ''ZodDiscriminatedUnion''"
| "typeName (ZodNull _) = ''ZodNull''"
| "typeName (ZodNullable _ _) = ''ZodNullable''"
| "typeName (ZodOptional _ _) = ''ZodOptional''"
| "typeName (ZodDefault _ _) = ''ZodDefault''"
| "typeName (ZodRecord _ _) = ''ZodRecord''"
| "typeName (ZodTuple _ _) = ''ZodTuple''"
| "typeName (ZodDate _) = ''ZodDate''"
| "typeName (ZodEffects _ _ _) = ''ZodEffects''"
| "typeName (ZodNever _) = ''ZodNever''"
| "typeName (ZodUndefined _) = ''ZodUndefined''"
| "typeName (ZodAny _) = ''ZodAny''"

text \<open>
  Modelled from the spec: \<^verbatim>\<open>isZodType\<close> (\<^verbatim>\<open>zodType.ts\<close>) is not among the sources.
  It compares the node's variant tag with the given name.
\<close>

definition isZodType :: "zod \<Rightarrow> string \<Rightarrow> bool" where
  "isZodType zodSchema name = (typeName zodSchema = name)"

text \<open>An optional effect list read as a list: \<^verbatim>\<open>effects ?? []\<close>.\<close>

definition effs :: "effect list option \<Rightarrow> effect list" where
  "effs e = (case e of None \<Rightarrow> [] | Some es \<Rightarrow> es)"

text \<open>
  Modelled from the spec: \<^verbatim>\<open>flattenEffects\<close> (\<^verbatim>\<open>parsers/transform.ts\<close>) is not among
  the sources. The effect lists are concatenated in order, duplicates kept; a
  missing list contributes nothing. The object tests of the repository expect no
  \<^verbatim>\<open>effects\<close> entry where nothing was recorded, so an empty result is \<^verbatim>\<open>undefined\<close>.
\<close>

definition flattenEffects :: "effect list option list \<Rightarrow> effect list option" where
  "flattenEffects effectLists =
     (let allEffects = concat (map effs effectLists)
      in if allEffects = [] then None else Some allEffects)"

text \<open>\<^verbatim>\<open>createComponentSchemaRef\<close> as \<^verbatim>\<open>index.ts\<close> defines it.\<close>

definition createComponentSchemaRef :: "string \<Rightarrow> string" where
  "createComponentSchemaRef schemaRef = ''#/components/schemas/'' @ schemaRef"

text \<open>
  Modelled from the spec: the two-argument \<^verbatim>\<open>createComponentSchemaRef\<close> the object composer
  imports from \<^verbatim>\<open>components.ts\<close> is not among the sources. The reference is the
  configurable path prefix followed by the registered name, the prefix defaulting to the
  one of \<^verbatim>\<open>index.ts\<close>.
\<close>

definition createComponentSchemaRef' :: "string \<Rightarrow> string option \<Rightarrow> string" where
  "createComponentSchemaRef' schemaRef refPath =
     (case refPath of
        None \<Rightarrow> createComponentSchemaRef schemaRef
      | Some prefix \<Rightarrow> prefix @ schemaRef)"

text \<open>What \<^verbatim>\<open>isOptionalSchema\<close> returns: \<^verbatim>\<open>{ optional, effects? }\<close>.\<close>

record OptionalResult =
  optional :: bool
  oeffects :: "effect list option"

text \<open>
  Modelled from the spec: \<^verbatim>\<open>isOptionalSchema\<close> (\<^verbatim>\<open>parsers/optional.ts\<close>) is not among
  the sources. An \<open>optional\<close> wrapper is optional; a \<open>default\<close> wrapper is
  optional in input mode and required in output mode, and records a \<open>schema\<close> effect
  with the active mode at the field's path; a field whose node is the never or undefined
  sentinel contributes no required entry (the repository's object test
  \<^verbatim>\<open>ignores ZodNever and ZodUndefined schemas\<close> expects \<^verbatim>\<open>required: ['a']\<close> for
  \<^verbatim>\<open>{a: string, b: undefined, c: never}\<close>, and \<^verbatim>\<open>mapRequired\<close> itself skips nothing);
  every other node is required.
\<close>

definition isOptionalSchema :: "zod \<Rightarrow> SchemaState \<Rightarrow> OptionalResult" where
  "isOptionalSchema zodSchema state =
     (if isZodType zodSchema ''ZodOptional'' then \<lparr>optional = True, oeffects = None\<rparr>
      else if isZodType zodSchema ''ZodDefault'' then
        \<lparr>optional = (stype state = Input),
         oeffects = Some [SchemaEffect (stype state) (zid (node_of zodSchema)) (path state)]\<rparr>
      else if isZodType zodSchema ''ZodNever'' \<or> isZodType zodSchema ''ZodUndefined'' then
        \<lparr>optional = True, oeffects = None\<rparr>
      else \<lparr>optional = False, oeffects = None\<rparr>)"

text \<open>
  \<^verbatim>\<open>createSchemaObject(zodSchema, state, subpath)\<close>, the dispatcher's entry point of the
  object composer's version, is not among the sources. The composer takes it as the
  parameter \<open>cso\<close>: it returns a fragment and the state it leaves behind, or throws.
\<close>

type_synonym create_schema_object =
  "zod \<Rightarrow> SchemaState \<Rightarrow> string list \<Rightarrow> error + (Schema \<times> SchemaState)"

section \<open>The object composer (\<^verbatim>\<open>parsers/object.ts\<close>)\<close>

record AdditionalPropertyOptions =
  opt_unknownKeys :: "unknown_keys option"
  opt_catchAll :: zod

text \<open>\<^verbatim>\<open>createDiffOpts\<close>\<close>

definition createDiffOpts ::
  "AdditionalPropertyOptions \<Rightarrow> AdditionalPropertyOptions \<Rightarrow> AdditionalPropertyOptions option" where
  "createDiffOpts baseOpts extendedOpts =
     (if opt_unknownKeys baseOpts = Some Strict \<or> \<not> isZodType (opt_catchAll baseOpts) ''ZodNever''
      then None
      else Some \<lparr>opt_unknownKeys = opt_unknownKeys extendedOpts,
                 opt_catchAll = opt_catchAll extendedOpts\<rparr>)"

text \<open>
  A shape is a plain object: the list of its own entries in the order of
  \<^verbatim>\<open>Object.entries\<close>, its keys distinct, with \<^verbatim>\<open>Object.prototype\<close> as its prototype. The
  property read \<^verbatim>\<open>obj[key]\<close> yields the own entry of that name; for a name the shape does
  not have, it yields the member of \<^verbatim>\<open>Object.prototype\<close> of that name, which is no schema
  node and not \<^verbatim>\<open>undefined\<close>; otherwise it yields \<^verbatim>\<open>undefined\<close>.
\<close>

definition objectPrototypeKeys :: "string list" where
  "objectPrototypeKeys =
     [''constructor'', ''__defineGetter__'', ''__defineSetter__'', ''hasOwnProperty'',
      ''__lookupGetter__'', ''__lookupSetter__'', ''isPrototypeOf'', ''propertyIsEnumerable'',
      ''toString'', ''valueOf'', ''__proto__'', ''toLocaleString'']"

datatype property = NoProperty | OwnProperty zod | PrototypeMember

definition getProperty :: "(string \<times> zod) list \<Rightarrow> string \<Rightarrow> property" where
  "getProperty obj key =
     (case map_of obj key of
        Some v \<Rightarrow> OwnProperty v
      | None \<Rightarrow> if key \<in> set objectPrototypeKeys then PrototypeMember else NoProperty)"

text \<open>
  \<^verbatim>\<open>createShapeDiff\<close>: the loop over \<^verbatim>\<open>Object.entries(extendedObj)\<close> with its accumulator.
  \<^verbatim>\<open>val === baseValue\<close> holds for an own entry of the base that is the identical node; the
  key is added when \<^verbatim>\<open>baseValue === undefined\<close>; in every other case, a member of
  \<^verbatim>\<open>Object.prototype\<close> included, the function returns \<^verbatim>\<open>null\<close>.
\<close>

fun createShapeDiff_loop ::
  "(string \<times> zod) list \<Rightarrow> (string \<times> zod) list \<Rightarrow> (string \<times> zod) list \<Rightarrow> (string \<times> zod) list option" where
  "createShapeDiff_loop baseObj [] acc = Some acc"
| "createShapeDiff_loop baseObj ((key, val) # rest) acc =
     (let baseValue = getProperty baseObj key
      in if (case baseValue of OwnProperty b \<Rightarrow> identical val b | _ \<Rightarrow> False)
         then createShapeDiff_loop baseObj rest acc
         else if baseValue = NoProperty
         then createShapeDiff_loop baseObj rest (AList.update key val acc)
         else None)"

definition createShapeDiff ::
  "(string \<times> zod) list \<Rightarrow> (string \<times> zod) list \<Rightarrow> (string \<times> zod) list option" where
  "createShapeDiff baseObj extendedObj = createShapeDiff_loop baseObj extendedObj []"

text \<open>
  \<^verbatim>\<open>mapRequired\<close>: the reducer pushes the field's path segment, asks \<^verbatim>\<open>isOptionalSchema\<close>
  and pops the segment again.
\<close>

record RequiredMap =
  required :: "string list"
  reffects :: "effect list option"

fun mapRequired_reduce ::
  "(string \<times> zod) list \<Rightarrow> string list \<times> effect list list \<Rightarrow> SchemaState
     \<Rightarrow> (string list \<times> effect list list) \<times> SchemaState" where
  "mapRequired_reduce [] acc state = (acc, state)"
| "mapRequired_reduce ((key, zodSchema) # rest) (req, allEffects) state =
     (let state1 = state\<lparr>path := path state @ [''property: '' @ key]\<rparr>;
          res = isOptionalSchema zodSchema state1;
          state2 = state1\<lparr>path := butlast (path state1)\<rparr>;
          req' = (if \<not> optional res then req @ [key] else req);
          allEffects' = (case oeffects res of Some es \<Rightarrow> allEffects @ [es] | None \<Rightarrow> allEffects)
      in mapRequired_reduce rest (req', allEffects') state2)"

definition mapRequired :: "(string \<times> zod) list \<Rightarrow> SchemaState \<Rightarrow> RequiredMap \<times> SchemaState" where
  "mapRequired shp state =
     (case mapRequired_reduce shp ([], []) state of
        ((req, allEffects), state') \<Rightarrow>
          (\<lparr>required = req, reffects = flattenEffects (map Some allEffects)\<rparr>, state'))"

text \<open>\<^verbatim>\<open>mapProperties\<close>\<close>

record PropertyMap =
  properties :: "(string \<times> json) list"
  peffects :: "effect list option list"

fun mapProperties_reduce ::
  "create_schema_object \<Rightarrow> (string \<times> zod) list \<Rightarrow> PropertyMap \<Rightarrow> SchemaState
     \<Rightarrow> error + (PropertyMap \<times> SchemaState)" where
  "mapProperties_reduce cso [] acc state = Inr (acc, state)"
| "mapProperties_reduce cso ((key, zodSchema) # rest) acc state =
     (if isZodType zodSchema ''ZodNever'' \<or> isZodType zodSchema ''ZodUndefined''
      then mapProperties_reduce cso rest acc state
      else
        (case cso zodSchema state [''property: '' @ key] of
           Inl e \<Rightarrow> Inl e
         | Inr (property, state') \<Rightarrow>
             mapProperties_reduce cso rest
               (acc\<lparr>properties := AList.update key (JObject (schema property)) (properties acc),
                     peffects := peffects acc @ [effects property]\<rparr>)
               state'))"

definition mapProperties ::
  "create_schema_object \<Rightarrow> (string \<times> zod) list \<Rightarrow> SchemaState
     \<Rightarrow> error + (PropertyMap option \<times> SchemaState)" where
  "mapProperties cso shp state =
     (if length shp = 0 then Inr (None, state)
      else
        (case mapProperties_reduce cso shp \<lparr>properties = [], peffects = []\<rparr> state of
           Inl e \<Rightarrow> Inl e
         | Inr (acc, state') \<Rightarrow> Inr (Some acc, state')))"

text \<open>\<^verbatim>\<open>createObjectSchemaFromShape\<close>\<close>

definition createObjectSchemaFromShape ::
  "create_schema_object \<Rightarrow> (string \<times> zod) list \<Rightarrow> AdditionalPropertyOptions \<Rightarrow> SchemaState
     \<Rightarrow> error + (Schema \<times> SchemaState)" where
  "createObjectSchemaFromShape cso shp opts state =
     (case mapProperties cso shp state of
        Inl e \<Rightarrow> Inl e
      | Inr (props, state1) \<Rightarrow>
          (case mapRequired shp state1 of
             (req, state2) \<Rightarrow>
               (case (if \<not> isZodType (opt_catchAll opts) ''ZodNever''
                      then (case cso (opt_catchAll opts) state2 [''additional properties''] of
                              Inl e \<Rightarrow> Inl e
                            | Inr (ap, state3) \<Rightarrow> Inr (Some ap, state3))
                      else Inr (None, state2)) of
                  Inl e \<Rightarrow> Inl e
                | Inr (additionalProperties, state3) \<Rightarrow>
                    Inr (\<lparr>kind = KSchema,
                          schema =
                            spread
                              (spread
                                (spread
                                  (spread [(''type'', JString ''object'')]
                                    (case props of
                                       None \<Rightarrow> None
                                     | Some pm \<Rightarrow> Some [(''properties'', JObject (properties pm))]))
                                  (if length (required req) \<noteq> 0
                                   then Some [(''required'', JArray (map JString (required req)))]
                                   else None))
                                (if opt_unknownKeys opts = Some Strict
                                 then Some [(''additionalProperties'', JBool False)]
                                 else None))
                              (case additionalProperties of
                                 None \<Rightarrow> None
                               | Some ap \<Rightarrow> Some [(''additionalProperties'', JObject (schema ap))]),
                          effects =
                            flattenEffects
                              ((case props of None \<Rightarrow> [] | Some pm \<Rightarrow> peffects pm)
                               @ [case additionalProperties of None \<Rightarrow> None | Some ap \<Rightarrow> effects ap,
                                  reffects req])\<rparr>,
                         state3))))"

text \<open>
  \<^verbatim>\<open>createExtendedSchema\<close>, first its lines 68 to 71: when the base is in the registry or
  asks for a name, it is synthesized through the dispatcher, for the registration this
  causes; the fragment returned is not used.
\<close>

definition createExtendedSchema_base ::
  "create_schema_object \<Rightarrow> zod_object \<Rightarrow> SchemaState \<Rightarrow> error + SchemaState" where
  "createExtendedSchema_base cso baseZodObject state =
     (let component = map_of (schemas state) (zid (onode baseZodObject))
      in if component \<noteq> None \<or> truthy_opt (openapi_field (onode baseZodObject) ''ref'')
         then (case cso (ZodObject baseZodObject) state [''extended schema''] of
                 Inl e \<Rightarrow> Inl e
               | Inr (_, state') \<Rightarrow> Inr state')
         else Inr state)"

definition createExtendedSchema ::
  "create_schema_object \<Rightarrow> zod_object \<Rightarrow> zod_object option \<Rightarrow> SchemaState
     \<Rightarrow> error + (Schema option \<times> SchemaState)" where
  "createExtendedSchema cso zodObject baseZodObject state =
     (case baseZodObject of
        None \<Rightarrow> Inr (None, state)
      | Some base \<Rightarrow>
          (case createExtendedSchema_base cso base state of
             Inl e \<Rightarrow> Inl e
           | Inr state1 \<Rightarrow>
               (case map_of (schemas state1) (zid (onode base)) of
                  None \<Rightarrow> Inr (None, state1)
                | Some completeComponent \<Rightarrow>
                    (case createDiffOpts
                            \<lparr>opt_unknownKeys = Some (unknownKeys base), opt_catchAll = catchall base\<rparr>
                            \<lparr>opt_unknownKeys = Some (unknownKeys zodObject),
                             opt_catchAll = catchall zodObject\<rparr> of
                       None \<Rightarrow> Inr (None, state1)
                     | Some diffOpts \<Rightarrow>
                         (case createShapeDiff (shape base) (shape zodObject) of
                            None \<Rightarrow> Inr (None, state1)
                          | Some diffShape \<Rightarrow>
                              (case createObjectSchemaFromShape cso diffShape diffOpts state1 of
                                 Inl e \<Rightarrow> Inl e
                               | Inr (extendedSchema, state2) \<Rightarrow>
                                   Inr (Some
                                         \<lparr>kind = KSchema,
                                          schema =
                                            spread
                                              [(''allOf'',
                                                JArray
                                                  [JObject
                                                     [(''$ref'',
                                                       JString
                                                         (createComponentSchemaRef'
                                                            (ref completeComponent)
                                                            (componentRefPath state2)))]])]
                                              (Some (schema extendedSchema)),
                                          effects =
                                            flattenEffects
                                              [if ctype completeComponent = Complete
                                               then ceffects completeComponent else Some [],
                                               if ctype completeComponent = InProgress
                                               then Some [ComponentEffect (zid (onode zodObject))
                                                            (path state2)]
                                               else Some [],
                                               effects extendedSchema]\<rparr>,
                                        state2)))))))"

text \<open>\<^verbatim>\<open>createObjectSchema\<close>\<close>

definition createObjectSchema ::
  "create_schema_object \<Rightarrow> zod_object \<Rightarrow> SchemaState \<Rightarrow> error + (Schema \<times> SchemaState)" where
  "createObjectSchema cso zodObject state =
     (case createExtendedSchema cso zodObject (extends zodObject) state of
        Inl e \<Rightarrow> Inl e
      | Inr (Some extendedSchema, state') \<Rightarrow> Inr (extendedSchema, state')
      | Inr (None, state') \<Rightarrow>
          createObjectSchemaFromShape cso (shape zodObject)
            \<lparr>opt_unknownKeys = Some (unknownKeys zodObject), opt_catchAll = catchall zodObject\<rparr>
            state')"

section \<open>The dispatcher and the name registry (\<^verbatim>\<open>index.ts\<close>)\<close>

text \<open>
  \<^verbatim>\<open>index.ts\<close> threads \<^verbatim>\<open>components\<close>, whose table \<^verbatim>\<open>components.schema\<close> (here
  \<open>schema_table\<close>) maps a registered name to the fragment and the node it was registered
  for, \<^verbatim>\<open>{ schemaObject, zodSchema }\<close>. A function that mutates the table returns it next to
  its result; what a \<^verbatim>\<open>throw\<close> leaves behind is returned next to the error.
\<close>

record RegisteredSchema =
  reg_schemaObject :: schema_object
  reg_zodSchema :: zod

record Components =
  schema_table :: "(string \<times> RegisteredSchema) list"

type_synonym 'a outcome = "(error + 'a) \<times> Components"

text \<open>
  The generators \<^verbatim>\<open>index.ts\<close> imports are not among the sources; the dispatcher takes
  them as its parameter. A leaf generator receives the node only; a composite generator
  also receives \<^verbatim>\<open>components\<close>, which it may change, and may throw.
\<close>

type_synonym leaf_generator = "zod \<Rightarrow> schema_object"
type_synonym generator = "zod \<Rightarrow> Components \<Rightarrow> schema_object outcome"

record generators =
  createStringSchema :: leaf_generator
  createNumberSchema :: leaf_generator
  createBooleanSchema :: leaf_generator
  createEnumSchema :: leaf_generator
  createLiteralSchema :: leaf_generator
  createNativeEnumSchema :: leaf_generator
  createArraySchema :: generator
  createObjectSchema_gen :: generator
  createUnionSchema :: generator
  createDiscriminatedUnionSchema :: generator
  createNullSchema :: leaf_generator
  createNullableSchema :: generator
  createOptionalSchema :: generator
  createDefaultSchema :: generator
  createRecordSchema :: generator
  createTupleSchema :: generator
  createDateSchema :: leaf_generator
  createEffectsSchema :: generator

text \<open>
  \<^verbatim>\<open>createSchema\<close>, lines 135 to 141: no \<^verbatim>\<open>instanceof\<close> test has matched.
\<close>

definition createSchema_unmatched :: "zod \<Rightarrow> Components \<Rightarrow> schema_object outcome" where
  "createSchema_unmatched zodSchema components =
     (if \<not> truthy_opt (openapi_field (node_of zodSchema) ''type'')
      then (Inl UnrecognizedSchemaKind, components)
      else (Inr [], components))"

text \<open>
  \<^verbatim>\<open>createSchema\<close>: the chain of \<^verbatim>\<open>instanceof\<close> tests in the order of the source. The
  classes are disjoint, so the chain is a case distinction; the second test for
  \<^verbatim>\<open>ZodNativeEnum\<close> (line 131) is never reached.
\<close>

definition createSchema :: "generators \<Rightarrow> zod \<Rightarrow> Components \<Rightarrow> schema_object outcome" where
  "createSchema g zodSchema components =
     (case zodSchema of
        ZodString _ \<Rightarrow> (Inr (createStringSchema g zodSchema), components)
      | ZodNumber _ \<Rightarrow> (Inr (createNumberSchema g zodSchema), components)
      | ZodBoolean _ \<Rightarrow> (Inr (createBooleanSchema g zodSchema), components)
      | ZodEnum _ \<Rightarrow> (Inr (createEnumSchema g zodSchema), components)
      | ZodLiteral _ \<Rightarrow> (Inr (createLiteralSchema g zodSchema), components)
      | ZodNativeEnum _ \<Rightarrow> (Inr (createNativeEnumSchema g zodSchema), components)
      | ZodArray _ _ \<Rightarrow> createArraySchema g zodSchema components
      | ZodObject _ \<Rightarrow> createObjectSchema_gen g zodSchema components
      | ZodUnion _ _ \<Rightarrow> createUnionSchema g zodSchema components
      | ZodDiscriminatedUnion _ _ \<Rightarrow> createDiscriminatedUnionSchema g zodSchema components
      | ZodNull _ \<Rightarrow> (Inr (createNullSchema g zodSchema), components)
      | ZodNullable _ _ \<Rightarrow> createNullableSchema g zodSchema components
      | ZodOptional _ _ \<Rightarrow> createOptionalSchema g zodSchema components
      | ZodDefault _ _ \<Rightarrow> createDefaultSchema g zodSchema components
      | ZodRecord _ _ \<Rightarrow> createRecordSchema g zodSchema components
      | ZodTuple _ _ \<Rightarrow> createTupleSchema g zodSchema components
      | ZodDate _ \<Rightarrow> (Inr (createDateSchema g zodSchema), components)
      | ZodEffects _ effectType _ \<Rightarrow>
          if effectType = Refinement \<or> effectType = Preprocess
          then createEffectsSchema g zodSchema components
          else createSchema_unmatched zodSchema components
      | _ \<Rightarrow> createSchema_unmatched zodSchema components)"

text \<open>
  \<^verbatim>\<open>createRegisteredSchema\<close>; \<^verbatim>\<open>createSchemaWithMetadata\<close> is not among the sources and is
  the parameter \<open>csm\<close>.
\<close>

definition createRegisteredSchema ::
  "generator \<Rightarrow> zod \<Rightarrow> string \<Rightarrow> Components \<Rightarrow> schema_object outcome" where
  "createRegisteredSchema csm zodSchema schemaRef components =
     (case map_of (schema_table components) schemaRef of
        Some component \<Rightarrow>
          if \<not> identical (reg_zodSchema component) zodSchema
          then (Inl DuplicateRef, components)
          else (Inr [(''$ref'', JString (createComponentSchemaRef schemaRef))], components)
      | None \<Rightarrow>
          (case csm zodSchema components of
             (Inl e, components') \<Rightarrow> (Inl e, components')
           | (Inr schemaOrRef, components') \<Rightarrow>
               if ''$ref'' \<in> fst ` set schemaOrRef
               then (Inl UnexpectedReferenceFragment, components')
               else
                 (Inr [(''$ref'', JString (createComponentSchemaRef schemaRef))],
                  components'\<lparr>schema_table :=
                    AList.update schemaRef
                      \<lparr>reg_schemaObject = schemaOrRef, reg_zodSchema = zodSchema\<rparr>
                      (schema_table components')\<rparr>)))"

text \<open>
  \<^verbatim>\<open>createSchemaOrRef\<close>; by its type \<^verbatim>\<open>_def.openapi.ref\<close> is a string, and the empty string
  is falsy.
\<close>

definition createSchemaOrRef :: "generator \<Rightarrow> zod \<Rightarrow> Components \<Rightarrow> schema_object outcome" where
  "createSchemaOrRef csm zodSchema components =
     (case openapi_field (node_of zodSchema) ''ref'' of
        Some (JString schemaRef) \<Rightarrow>
          if schemaRef \<noteq> [] then createRegisteredSchema csm zodSchema schemaRef components
          else csm zodSchema components
      | _ \<Rightarrow> csm zodSchema components)"

section \<open>Notions used in the statements\<close>

text \<open>The never and undefined sentinels, which \<^verbatim>\<open>mapProperties\<close> skips.\<close>

definition sentinel :: "zod \<Rightarrow> bool" where
  "sentinel z = (isZodType z ''ZodNever'' \<or> isZodType z ''ZodUndefined'')"

text \<open>
  What \<^verbatim>\<open>isOptionalSchema\<close> answers for a node in a given mode.
\<close>

definition fieldOptional :: "creation_type \<Rightarrow> zod \<Rightarrow> bool" where
  "fieldOptional m z = (isZodType z ''ZodOptional'' \<or> (isZodType z ''ZodDefault'' \<and> m = Input)
      \<or> isZodType z ''ZodNever'' \<or> isZodType z ''ZodUndefined'')"

text \<open>
  The children of a node are synthesized one after the other, each in the state the one
  before has left: \<open>runChildren\<close> runs the dispatcher on a list of calls and returns
  the fragments in that order, with the last state.
\<close>

fun runChildren ::
  "create_schema_object \<Rightarrow> (zod \<times> string list) list \<Rightarrow> SchemaState
     \<Rightarrow> error + (Schema list \<times> SchemaState)" where
  "runChildren cso [] st = Inr ([], st)"
| "runChildren cso ((z, subpath) # rest) st =
     (case cso z st subpath of
        Inl e \<Rightarrow> Inl e
      | Inr (frag, st1) \<Rightarrow>
          (case runChildren cso rest st1 of
             Inl e \<Rightarrow> Inl e
           | Inr (frags, st2) \<Rightarrow> Inr (frag # frags, st2)))"

text \<open>
  The children of an object shape in traversal order: the fields that are no sentinels,
  in declaration order, then the catch-all unless it is the never sentinel.
\<close>

definition propertyChildren :: "(string \<times> zod) list \<Rightarrow> (zod \<times> string list) list" where
  "propertyChildren shp =
     map (\<lambda>(k, z). (z, [''property: '' @ k])) (filter (\<lambda>(k, z). \<not> sentinel z) shp)"

definition catchAllChildren :: "AdditionalPropertyOptions \<Rightarrow> (zod \<times> string list) list" where
  "catchAllChildren opts =
     (if isZodType (opt_catchAll opts) ''ZodNever'' then []
      else [(opt_catchAll opts, [''additional properties''])])"

text \<open>
  The effects generated at the level of the object itself: what \<^verbatim>\<open>isOptionalSchema\<close>
  records for each field, at the field's path, in declaration order.
\<close>

definition requiredEffects :: "(string \<times> zod) list \<Rightarrow> SchemaState \<Rightarrow> effect list" where
  "requiredEffects shp st =
     concat (map (\<lambda>(k, z). effs (oeffects (isOptionalSchema z
                (st\<lparr>path := path st @ [''property: '' @ k]\<rparr>)))) shp)"

text \<open>Reading the \<^verbatim>\<open>required\<close> list and the \<^verbatim>\<open>properties\<close> of a fragment.\<close>

definition requiredOf :: "schema_object \<Rightarrow> json list" where
  "requiredOf s = (case map_of s ''required'' of Some (JArray xs) \<Rightarrow> xs | _ \<Rightarrow> [])"

definition propertiesOf :: "schema_object \<Rightarrow> (string \<times> json) list" where
  "propertiesOf s = (case map_of s ''properties'' of Some (JObject kvs) \<Rightarrow> kvs | _ \<Rightarrow> [])"

text \<open>
  The arm of the dispatcher of \<^verbatim>\<open>index.ts\<close> that the variant of a node selects: a leaf
  generator, a composite generator, or none. A \<^verbatim>\<open>ZodEffects\<close> node selects its arm only
  as a refinement or a preprocessing step.
\<close>

datatype arm = NoArm | LeafArm leaf_generator | CompositeArm generator

fun armOf :: "generators \<Rightarrow> zod \<Rightarrow> arm" where
  "armOf g (ZodString _) = LeafArm (createStringSchema g)"
| "armOf g (ZodNumber _) = LeafArm (createNumberSchema g)"
| "armOf g (ZodBoolean _) = LeafArm (createBooleanSchema g)"
| "armOf g (ZodEnum _) = LeafArm (createEnumSchema g)"
| "armOf g (ZodLiteral _) = LeafArm (createLiteralSchema g)"
| "armOf g (ZodNativeEnum _) = LeafArm (createNativeEnumSchema g)"
| "armOf g (ZodArray _ _) = CompositeArm (createArraySchema g)"
| "armOf g (ZodObject _) = CompositeArm (createObjectSchema_gen g)"
| "armOf g (ZodUnion _ _) = CompositeArm (createUnionSchema g)"
| "armOf g (ZodDiscriminatedUnion _ _) = CompositeArm (createDiscriminatedUnionSchema g)"
| "armOf g (ZodNull _) = LeafArm (createNullSchema g)"
| "armOf g (ZodNullable _ _) = CompositeArm (createNullableSchema g)"
| "armOf g (ZodOptional _ _) = CompositeArm (createOptionalSchema g)"
| "armOf g (ZodDefault _ _) = CompositeArm (createDefaultSchema g)"
| "armOf g (ZodRecord _ _) = CompositeArm (createRecordSchema g)"
| "armOf g (ZodTuple _ _) = CompositeArm (createTupleSchema g)"
| "armOf g (ZodDate _) = LeafArm (createDateSchema g)"
| "armOf g (ZodEffects _ effectType _) =
     (if effectType = Refinement \<or> effectType = Preprocess
      then CompositeArm (createEffectsSchema g) else NoArm)"
| "armOf g (ZodNever _) = NoArm"
| "armOf g (ZodUndefined _) = NoArm"
| "armOf g (ZodAny _) = NoArm"

text \<open>Whether an arm of the dispatcher of \<^verbatim>\<open>index.ts\<close> matches the node.\<close>

fun hasGenerator :: "zod \<Rightarrow> bool" where
  "hasGenerator (ZodEffects _ effectType _) = (effectType = Refinement \<or> effectType = Preprocess)"
| "hasGenerator (ZodNever _) = False"
| "hasGenerator (ZodUndefined _) = False"
| "hasGenerator (ZodAny _) = False"
| "hasGenerator _ = True"

section \<open>Examples\<close>

text \<open>The fragments of the leaves the examples use; a wrapper yields that of its node.\<close>

fun leafSchema :: "zod \<Rightarrow> schema_object option" where
  "leafSchema (ZodString _) = Some [(''type'', JString ''string'')]"
| "leafSchema (ZodNumber _) = Some [(''type'', JString ''number'')]"
| "leafSchema (ZodBoolean _) = Some [(''type'', JString ''boolean'')]"
| "leafSchema (ZodOptional _ inner) = leafSchema inner"
| "leafSchema (ZodDefault _ inner) = leafSchema inner"
| "leafSchema _ = None"

text \<open>
  Modelled from the spec: an instance of \<^verbatim>\<open>createSchemaObject\<close>, which is not among the
  sources, to run the composer on concrete shapes. It covers what the examples need: a
  node found in the registry yields the reference to its name, with the stored effects of
  a complete entry and a \<open>component\<close> effect for an entry in progress; strings, numbers
  and booleans yield their type; an optional or default wrapper yields the fragment of
  the node it wraps. It registers nothing and leaves the state as it is.
\<close>

definition exampleSchemaObject :: create_schema_object where
  "exampleSchemaObject zodSchema state subpath =
     (case map_of (schemas state) (zid (node_of zodSchema)) of
        Some entry \<Rightarrow>
          Inr (\<lparr>kind = KRef,
                schema = [(''$ref'', JString (createComponentSchemaRef' (ref entry)
                                              (componentRefPath state)))],
                effects =
                  (if ctype entry = InProgress
                   then Some [ComponentEffect (zid (node_of zodSchema)) (path state @ subpath)]
                   else ceffects entry)\<rparr>,
               state)
      | None \<Rightarrow>
          (case leafSchema zodSchema of
             Some s \<Rightarrow> Inr (\<lparr>kind = KSchema, schema = s, effects = None\<rparr>, state)
           | None \<Rightarrow> Inl UnrecognizedSchemaKind))"

text \<open>
  Modelled from the spec: a second instance of \<^verbatim>\<open>createSchemaObject\<close>, which also enters
  a node that asks for a name and is not in the registry yet: the entry is complete and
  without effects, and the reference to the name is returned. The node's own fragment is
  not synthesized; the registry of this model does not hold it.
\<close>

definition registeringSchemaObject :: create_schema_object where
  "registeringSchemaObject zodSchema state subpath =
     (case (map_of (schemas state) (zid (node_of zodSchema)),
            openapi_field (node_of zodSchema) ''ref'') of
        (None, Some (JString name)) \<Rightarrow>
          Inr (\<lparr>kind = KRef,
                schema = [(''$ref'', JString (createComponentSchemaRef' name
                                              (componentRefPath state)))],
                effects = None\<rparr>,
               state\<lparr>schemas :=
                 AList.update (zid (node_of zodSchema))
                   \<lparr>ctype = Complete, ref = name, ceffects = None\<rparr> (schemas state)\<rparr>)
      | _ \<Rightarrow> exampleSchemaObject zodSchema state subpath)"

text \<open>
  Generators for the dispatcher of \<^verbatim>\<open>index.ts\<close> that return an empty fragment.
\<close>

definition emptyGenerators :: generators where
  "emptyGenerators =
     \<lparr>createStringSchema = (\<lambda>_. []),
      createNumberSchema = (\<lambda>_. []),
      createBooleanSchema = (\<lambda>_. []),
      createEnumSchema = (\<lambda>_. []),
      createLiteralSchema = (\<lambda>_. []),
      createNativeEnumSchema = (\<lambda>_. []),
      createArraySchema = (\<lambda>_ c. (Inr [], c)),
      createObjectSchema_gen = (\<lambda>_ c. (Inr [], c)),
      createUnionSchema = (\<lambda>_ c. (Inr [], c)),
      createDiscriminatedUnionSchema = (\<lambda>_ c. (Inr [], c)),
      createNullSchema = (\<lambda>_. []),
      createNullableSchema = (\<lambda>_ c. (Inr [], c)),
      createOptionalSchema = (\<lambda>_ c. (Inr [], c)),
      createDefaultSchema = (\<lambda>_ c. (Inr [], c)),
      createRecordSchema = (\<lambda>_ c. (Inr [], c)),
      createTupleSchema = (\<lambda>_ c. (Inr [], c)),
      createDateSchema = (\<lambda>_. []),
      createEffectsSchema = (\<lambda>_ c. (Inr [], c))\<rparr>"

text \<open>
  Modelled from the spec: \<^verbatim>\<open>createArraySchema\<close> (\<^verbatim>\<open>array.ts\<close>) is not among the sources.
  The array generator recurses into its element through the dispatcher, here with the
  generators \<open>g\<close>, and wraps the element's fragment as \<^verbatim>\<open>items\<close>; an error of the element
  aborts the synthesis of the array.
\<close>

definition arrayGenerator :: "generators \<Rightarrow> generator" where
  "arrayGenerator g zodSchema components =
     (case zodSchema of
        ZodArray _ element \<Rightarrow>
          (case createSchema g element components of
             (Inl e, components') \<Rightarrow> (Inl e, components')
           | (Inr items, components') \<Rightarrow>
               (Inr [(''type'', JString ''array''), (''items'', JObject items)], components'))
      | _ \<Rightarrow> (Inr [], components))"

definition arrayGenerators :: generators where
  "arrayGenerators = emptyGenerators\<lparr>createArraySchema := arrayGenerator emptyGenerators\<rparr>"

text \<open>
  A metadata generator for the registry of \<^verbatim>\<open>index.ts\<close>: every node is a string.
\<close>

definition stringGenerator :: generator where
  "stringGenerator zodSchema components = (Inr [(''type'', JString ''string'')], components)"

text \<open>
  The nodes and states of the repository's object tests: \<^verbatim>\<open>object1\<close> is
  \<^verbatim>\<open>z.object({ a: z.string() }).openapi({ ref: 'obj1' })\<close>, \<^verbatim>\<open>object2\<close> is
  \<^verbatim>\<open>object1.extend({ b: z.string() })\<close>, \<^verbatim>\<open>object3\<close> is
  \<^verbatim>\<open>object1.extend({ a: z.number() })\<close>; \<open>plain i\<close> is a node without metadata.
\<close>

definition plain :: "nat \<Rightarrow> node" where
  "plain i = \<lparr>zid = i, openapi = None\<rparr>"

definition object1 :: zod_object where
  "object1 =
     Object \<lparr>zid = 1, openapi = Some [(''ref'', JString ''obj1'')]\<rparr>
       [(''a'', ZodString (plain 10))] Strip (ZodNever (plain 0)) None"

definition object2 :: zod_object where
  "object2 =
     Object (plain 2)
       [(''a'', ZodString (plain 10)), (''b'', ZodString (plain 11))]
       Strip (ZodNever (plain 0)) (Some object1)"

definition object3 :: zod_object where
  "object3 =
     Object (plain 3)
       [(''a'', ZodNumber (plain 12))]
       Strip (ZodNever (plain 0)) (Some object1)"

text \<open>\<^verbatim>\<open>object4\<close> is \<^verbatim>\<open>object1.extend({ constructor: z.string() })\<close>.\<close>

definition object4 :: zod_object where
  "object4 =
     Object (plain 4)
       [(''a'', ZodString (plain 10)), (''constructor'', ZodString (plain 15))]
       Strip (ZodNever (plain 0)) (Some object1)"

definition outputState :: "(nat \<times> SchemaComponent) list \<Rightarrow> SchemaState" where
  "outputState registry =
     \<lparr>schemas = registry, stype = Output, path = [], componentRefPath = None\<rparr>"

definition inputState :: "(nat \<times> SchemaComponent) list \<Rightarrow> SchemaState" where
  "inputState registry =
     \<lparr>schemas = registry, stype = Input, path = [], componentRefPath = None\<rparr>"

text \<open>
  The shapes of the tests \<^verbatim>\<open>creates a simple object with required and optionals\<close>
  (with a default field added) and \<^verbatim>\<open>ignores ZodNever and ZodUndefined schemas\<close>, and the
  options of an object without \<^verbatim>\<open>strict\<close> and without a catch-all.
\<close>

definition fieldsShape :: "(string \<times> zod) list" where
  "fieldsShape =
     [(''a'', ZodString (plain 10)),
      (''b'', ZodOptional (plain 11) (ZodString (plain 12))),
      (''c'', ZodDefault (plain 13) (ZodString (plain 14)))]"

definition sentinelShape :: "(string \<times> zod) list" where
  "sentinelShape =
     [(''a'', ZodString (plain 10)),
      (''b'', ZodUndefined (plain 11)),
      (''c'', ZodNever (plain 12))]"

definition noCatchAll :: AdditionalPropertyOptions where
  "noCatchAll = \<lparr>opt_unknownKeys = Some Strip, opt_catchAll = ZodNever (plain 0)\<rparr>"

section \<open>Auxiliary facts\<close>

lemma effs_simps [simp]: "effs None = []" "effs (Some es) = es"
  by (simp_all add: effs_def)

lemma effs_flattenEffects: "effs (flattenEffects xs) = concat (map effs xs)"
  by (simp add: flattenEffects_def effs_def Let_def)

lemma map_of_assign:
  "map_of (assign target src) k = (case map_of (rev src) k of Some v \<Rightarrow> Some v | None \<Rightarrow> map_of target k)"
  unfolding assign_def
  by (induction src arbitrary: target) (auto simp: update_conv split: option.splits)

lemma mapRequired_reduce_state: "snd (mapRequired_reduce shp acc st) = st"
  by (induction shp acc st rule: mapRequired_reduce.induct) (simp_all add: Let_def)

lemma mapRequired_state: "snd (mapRequired shp st) = st"
  using mapRequired_reduce_state [of shp "([], [])" st]
  by (auto simp: mapRequired_def split: prod.splits)

lemma optional_isOptionalSchema:
  "optional (isOptionalSchema z st) = fieldOptional (stype st) z"
  by (auto simp: isOptionalSchema_def fieldOptional_def isZodType_def)

lemma mapRequired_reduce_required:
  "fst (fst (mapRequired_reduce shp (req, es) st)) =
     req @ map fst (filter (\<lambda>(k, z). \<not> fieldOptional (stype st) z) shp)"
proof (induction shp "(req, es)" st arbitrary: req es rule: mapRequired_reduce.induct)
  case (1 st)
  then show ?case by simp
next
  case (2 key zodSchema rest req allEffects state)
  show ?case
    by (simp add: Let_def "2" optional_isOptionalSchema)
qed

lemma mapRequired_reduce_effects:
  "concat (snd (fst (mapRequired_reduce shp (req, es) st))) = concat es @ requiredEffects shp st"
proof (induction shp "(req, es)" st arbitrary: req es rule: mapRequired_reduce.induct)
  case (1 st)
  then show ?case by (simp add: requiredEffects_def)
next
  case (2 key zodSchema rest req allEffects state)
  show ?case
    by (simp add: Let_def "2" requiredEffects_def split: option.splits)
qed

lemma effs_flattenEffects_Some: "effs (flattenEffects (map Some xs)) = concat xs"
  by (simp add: effs_flattenEffects comp_def)

lemma mapRequired_eq:
  "mapRequired shp st = (rm, st') \<Longrightarrow>
     st' = st \<and> required rm = map fst (filter (\<lambda>(k, z). \<not> fieldOptional (stype st) z) shp)
     \<and> effs (reffects rm) = requiredEffects shp st"
  using mapRequired_reduce_state [of shp "([], [])" st]
    mapRequired_reduce_required [of shp "[]" "[]" st]
    mapRequired_reduce_effects [of shp "[]" "[]" st]
  by (auto simp: mapRequired_def effs_flattenEffects_Some split: prod.splits)

lemma propertyChildren_Cons:
  "propertyChildren ((k, z) # rest) =
     (if sentinel z then propertyChildren rest
      else (z, [''property: '' @ k]) # propertyChildren rest)"
  by (simp add: propertyChildren_def)

lemma mapProperties_reduce_Cons:
  "mapProperties_reduce cso ((key, z) # rest) acc st =
     (if sentinel z then mapProperties_reduce cso rest acc st
      else
        (case cso z st [''property: '' @ key] of
           Inl e \<Rightarrow> Inl e
         | Inr (property, st1) \<Rightarrow>
             mapProperties_reduce cso rest
               (acc\<lparr>properties := AList.update key (JObject (schema property)) (properties acc),
                     peffects := peffects acc @ [effects property]\<rparr>)
               st1))"
  by (simp add: sentinel_def)

lemma mapProperties_reduce_trace:
  "mapProperties_reduce cso shp acc st = Inr (acc', st') \<Longrightarrow>
     \<exists>frags. runChildren cso (propertyChildren shp) st = Inr (frags, st')
       \<and> peffects acc' = peffects acc @ map effects frags"
proof (induction shp arbitrary: acc st)
  case Nil
  then show ?case by (simp add: propertyChildren_def)
next
  case (Cons kz rest)
  obtain key z where kz: "kz = (key, z)" by (cases kz)
  show ?case
  proof (cases "sentinel z")
    case True
    with Cons.prems kz have "mapProperties_reduce cso rest acc st = Inr (acc', st')"
      by (simp add: mapProperties_reduce_Cons del: mapProperties_reduce.simps)
    from Cons.IH [OF this] True kz show ?thesis
      by (simp add: propertyChildren_Cons)
  next
    case False
    with Cons.prems kz obtain property st1 where
      c: "cso z st [''property: '' @ key] = Inr (property, st1)"
      and r: "mapProperties_reduce cso rest
               (acc\<lparr>properties := AList.update key (JObject (schema property)) (properties acc),
                     peffects := peffects acc @ [effects property]\<rparr>) st1 = Inr (acc', st')"
      by (auto simp: mapProperties_reduce_Cons simp del: mapProperties_reduce.simps split: sum.splits)
    from Cons.IH [OF r] obtain frags where
      "runChildren cso (propertyChildren rest) st1 = Inr (frags, st')"
      "peffects acc' = (peffects acc @ [effects property]) @ map effects frags"
      by auto
    with False kz c show ?thesis
      by (simp add: propertyChildren_Cons)
  qed
qed

lemma mapProperties_reduce_keys:
  "mapProperties_reduce cso shp acc st = Inr (acc', st') \<Longrightarrow>
     fst ` set (properties acc') =
       fst ` set (properties acc) \<union> {k. \<exists>z. (k, z) \<in> set shp \<and> \<not> sentinel z}"
proof (induction shp arbitrary: acc st)
  case Nil
  then show ?case by simp
next
  case (Cons kz rest)
  obtain key z where kz: "kz = (key, z)" by (cases kz)
  show ?case
  proof (cases "sentinel z")
    case True
    with Cons.prems kz have "mapProperties_reduce cso rest acc st = Inr (acc', st')"
      by (simp add: mapProperties_reduce_Cons del: mapProperties_reduce.simps)
    from Cons.IH [OF this] True kz show ?thesis
      by auto
  next
    case False
    with Cons.prems kz obtain property :: Schema and st1 where
      r: "mapProperties_reduce cso rest
               (acc\<lparr>properties := AList.update key (JObject (schema property)) (properties acc),
                     peffects := peffects acc @ [effects property]\<rparr>) st1 = Inr (acc', st')"
      by (auto simp: mapProperties_reduce_Cons simp del: mapProperties_reduce.simps split: sum.splits)
    have "fst ` set (AList.update key (JObject (schema property)) (properties acc))
            = insert key (fst ` set (properties acc))"
      by (simp add: dom_update)
    with Cons.IH [OF r] False kz show ?thesis
      by auto
  qed
qed

lemma mapProperties_InrD:
  assumes "mapProperties cso shp st = Inr (props, st1)"
  shows "\<exists>frags. runChildren cso (propertyChildren shp) st = Inr (frags, st1)
           \<and> (case props of
                 None \<Rightarrow> shp = [] \<and> frags = []
               | Some pm \<Rightarrow> shp \<noteq> [] \<and> peffects pm = map effects frags
                   \<and> fst ` set (properties pm) = {k. \<exists>z. (k, z) \<in> set shp \<and> \<not> sentinel z})"
proof (cases "shp = []")
  case True
  with assms show ?thesis
    by (auto simp: mapProperties_def propertyChildren_def)
next
  case False
  with assms obtain pm where
    r: "mapProperties_reduce cso shp \<lparr>properties = [], peffects = []\<rparr> st = Inr (pm, st1)"
    and p: "props = Some pm"
    by (auto simp: mapProperties_def split: sum.splits)
  from mapProperties_reduce_trace [OF r] mapProperties_reduce_keys [OF r] False p
  show ?thesis by auto
qed

lemma createObjectSchemaFromShape_InrD:
  assumes "createObjectSchemaFromShape cso shp opts st = Inr (sch, st')"
  shows "\<exists>props st1 ap.
           mapProperties cso shp st = Inr (props, st1)
         \<and> (if isZodType (opt_catchAll opts) ''ZodNever'' then ap = None \<and> st' = st1
            else \<exists>a. cso (opt_catchAll opts) st1 [''additional properties''] = Inr (a, st')
                   \<and> ap = Some a)
         \<and> sch =
             \<lparr>kind = KSchema,
              schema =
                spread
                  (spread
                    (spread
                      (spread [(''type'', JString ''object'')]
                        (case props of
                           None \<Rightarrow> None
                         | Some pm \<Rightarrow> Some [(''properties'', JObject (properties pm))]))
                      (if length (required (fst (mapRequired shp st1))) \<noteq> 0
                       then Some [(''required'',
                                   JArray (map JString (required (fst (mapRequired shp st1)))))]
                       else None))
                    (if opt_unknownKeys opts = Some Strict
                     then Some [(''additionalProperties'', JBool False)]
                     else None))
                  (case ap of
                     None \<Rightarrow> None
                   | Some a \<Rightarrow> Some [(''additionalProperties'', JObject (schema a))]),
              effects =
                flattenEffects
                  ((case props of None \<Rightarrow> [] | Some pm \<Rightarrow> peffects pm)
                   @ [case ap of None \<Rightarrow> None | Some a \<Rightarrow> effects a,
                      reffects (fst (mapRequired shp st1))])\<rparr>"
proof -
  from assms obtain props st1 where
    p: "mapProperties cso shp st = Inr (props, st1)"
    by (auto simp: createObjectSchemaFromShape_def split: sum.splits)
  obtain req where r: "mapRequired shp st1 = (req, st1)"
    using mapRequired_state [of shp st1] by (cases "mapRequired shp st1") auto
  show ?thesis
  proof (cases "isZodType (opt_catchAll opts) ''ZodNever''")
    case True
    with assms p r show ?thesis
      by (auto simp: createObjectSchemaFromShape_def)
  next
    case False
    with assms p r obtain a where
      "cso (opt_catchAll opts) st1 [''additional properties''] = Inr (a, st')"
      by (auto simp: createObjectSchemaFromShape_def split: sum.splits)
    with False assms p r show ?thesis
      by (auto simp: createObjectSchemaFromShape_def)
  qed
qed

lemma map_of_assign_single:
  "map_of (assign target [(k, v)]) k' = (if k' = k then Some v else map_of target k')"
  by (simp add: assign_def update_conv)

lemma runChildren_catchAll:
  "(if isZodType (opt_catchAll opts) ''ZodNever'' then ap = None \<and> st' = st1
    else \<exists>a. cso (opt_catchAll opts) st1 [''additional properties''] = Inr (a, st') \<and> ap = Some a)
   \<Longrightarrow> runChildren cso (catchAllChildren opts) st1
         = Inr (case ap of None \<Rightarrow> [] | Some a \<Rightarrow> [a], st')"
  by (auto simp: catchAllChildren_def split: if_splits)

lemma createObjectSchemaFromShape_facts:
  assumes "createObjectSchemaFromShape cso shp opts st = Inr (sch, st')"
  obtains props st1 ap frags where
    "mapProperties cso shp st = Inr (props, st1)"
    "runChildren cso (propertyChildren shp) st = Inr (frags, st1)"
    "if isZodType (opt_catchAll opts) ''ZodNever'' then ap = None \<and> st' = st1
     else \<exists>a. cso (opt_catchAll opts) st1 [''additional properties''] = Inr (a, st')
            \<and> ap = Some a"
    "props = None \<longleftrightarrow> shp = []"
    "\<And>pm. props = Some pm \<Longrightarrow>
       fst ` set (properties pm) = {k. \<exists>z. (k, z) \<in> set shp \<and> \<not> sentinel z}"
    "map_of (schema sch) ''type'' = Some (JString ''object'')"
    "map_of (schema sch) ''properties'' = map_option (\<lambda>pm. JObject (properties pm)) props"
    "map_of (schema sch) ''required'' =
       (if map fst (filter (\<lambda>(k, z). \<not> fieldOptional (stype st1) z) shp) = [] then None
        else Some (JArray (map JString
               (map fst (filter (\<lambda>(k, z). \<not> fieldOptional (stype st1) z) shp)))))"
    "map_of (schema sch) ''additionalProperties'' =
       (case ap of
          Some a \<Rightarrow> Some (JObject (schema a))
        | None \<Rightarrow> if opt_unknownKeys opts = Some Strict then Some (JBool False) else None)"
    "map_of (schema sch) ''allOf'' = None"
    "effs (effects sch) =
       concat (map (\<lambda>f. effs (effects f)) (frags @ (case ap of None \<Rightarrow> [] | Some a \<Rightarrow> [a])))
       @ requiredEffects shp st1"
proof -
  from createObjectSchemaFromShape_InrD [OF assms] obtain props st1 ap where
    p: "mapProperties cso shp st = Inr (props, st1)"
    and a: "if isZodType (opt_catchAll opts) ''ZodNever'' then ap = None \<and> st' = st1
            else \<exists>a. cso (opt_catchAll opts) st1 [''additional properties''] = Inr (a, st')
                   \<and> ap = Some a"
    and s: "schema sch =
                spread
                  (spread
                    (spread
                      (spread [(''type'', JString ''object'')]
                        (case props of
                           None \<Rightarrow> None
                         | Some pm \<Rightarrow> Some [(''properties'', JObject (properties pm))]))
                      (if length (required (fst (mapRequired shp st1))) \<noteq> 0
                       then Some [(''required'',
                                   JArray (map JString (required (fst (mapRequired shp st1)))))]
                       else None))
                    (if opt_unknownKeys opts = Some Strict
                     then Some [(''additionalProperties'', JBool False)]
                     else None))
                  (case ap of
                     None \<Rightarrow> None
                   | Some a \<Rightarrow> Some [(''additionalProperties'', JObject (schema a))])"
    and e: "effects sch =
                flattenEffects
                  ((case props of None \<Rightarrow> [] | Some pm \<Rightarrow> peffects pm)
                   @ [case ap of None \<Rightarrow> None | Some a \<Rightarrow> effects a,
                      reffects (fst (mapRequired shp st1))])"
    by auto
  from mapProperties_InrD [OF p] obtain frags where
    f: "runChildren cso (propertyChildren shp) st = Inr (frags, st1)"
    and c: "case props of
              None \<Rightarrow> shp = [] \<and> frags = []
            | Some pm \<Rightarrow> shp \<noteq> [] \<and> peffects pm = map effects frags
                \<and> fst ` set (properties pm) = {k. \<exists>z. (k, z) \<in> set shp \<and> \<not> sentinel z}"
    by auto
  obtain req where r: "mapRequired shp st1 = (req, st1)"
    using mapRequired_state [of shp st1] by (cases "mapRequired shp st1") auto
  note rq = mapRequired_eq [OF r]
  have 1: "props = None \<longleftrightarrow> shp = []"
    using c by (cases props) auto
  have 2: "\<And>pm. props = Some pm \<Longrightarrow>
       fst ` set (properties pm) = {k. \<exists>z. (k, z) \<in> set shp \<and> \<not> sentinel z}"
    using c by auto
  have 3: "map_of (schema sch) ''type'' = Some (JString ''object'')"
    unfolding s by (simp add: map_of_assign_single split: option.splits)
  have 4: "map_of (schema sch) ''properties'' = map_option (\<lambda>pm. JObject (properties pm)) props"
    unfolding s by (simp add: map_of_assign_single split: option.splits)
  have 5: "map_of (schema sch) ''required'' =
       (if map fst (filter (\<lambda>(k, z). \<not> fieldOptional (stype st1) z) shp) = [] then None
        else Some (JArray (map JString
               (map fst (filter (\<lambda>(k, z). \<not> fieldOptional (stype st1) z) shp)))))"
    unfolding s using rq r
    by (simp add: map_of_assign_single split: option.splits)
  have 6: "map_of (schema sch) ''additionalProperties'' =
       (case ap of
          Some a \<Rightarrow> Some (JObject (schema a))
        | None \<Rightarrow> if opt_unknownKeys opts = Some Strict then Some (JBool False) else None)"
    unfolding s by (simp add: map_of_assign_single split: option.splits)
  have 7: "map_of (schema sch) ''allOf'' = None"
    unfolding s by (simp add: map_of_assign_single split: option.splits)
  have 8: "effs (effects sch) =
       concat (map (\<lambda>f. effs (effects f)) (frags @ (case ap of None \<Rightarrow> [] | Some a \<Rightarrow> [a])))
       @ requiredEffects shp st1"
    unfolding e using rq r c
    by (simp add: effs_flattenEffects comp_def split: option.splits)
  from that [OF p f a 1 2 3 4 5 6 7 8] show thesis .
qed

lemma createShapeDiff_loop_None_iff:
  "createShapeDiff_loop baseObj ext acc = None \<longleftrightarrow>
     (\<exists>(k, v) \<in> set ext.
        (\<exists>b. map_of baseObj k = Some b \<and> \<not> identical v b)
        \<or> (map_of baseObj k = None \<and> k \<in> set objectPrototypeKeys))"
  by (induction baseObj ext acc rule: createShapeDiff_loop.induct)
     (auto simp: Let_def getProperty_def split: option.splits)

lemma createShapeDiff_None_iff:
  "createShapeDiff baseObj ext = None \<longleftrightarrow>
     (\<exists>(k, v) \<in> set ext.
        (\<exists>b. map_of baseObj k = Some b \<and> \<not> identical v b)
        \<or> (map_of baseObj k = None \<and> k \<in> set objectPrototypeKeys))"
  by (simp add: createShapeDiff_def createShapeDiff_loop_None_iff)

lemma createExtendedSchema_base_Inr_iff:
  "createExtendedSchema_base cso base st = Inr st1 \<longleftrightarrow>
     (if map_of (schemas st) (zid (onode base)) \<noteq> None
          \<or> truthy_opt (openapi_field (onode base) ''ref'')
      then \<exists>fragment. cso (ZodObject base) st [''extended schema''] = Inr (fragment, st1)
      else st1 = st)"
  by (auto simp: createExtendedSchema_base_def Let_def split: sum.splits)

lemma map_of_assign_absent:
  "map_of src k = None \<Longrightarrow> map_of (assign target src) k = map_of target k"
proof -
  assume "map_of src k = None"
  then have "k \<notin> fst ` set src" by (simp add: map_of_eq_None_iff)
  then have "map_of (rev src) k = None" by (simp add: map_of_eq_None_iff)
  then show ?thesis by (simp add: map_of_assign)
qed

lemma createExtendedSchema_unfold:
  assumes "createExtendedSchema_base cso base st = Inr st1"
  shows "createExtendedSchema cso zo (Some base) st =
     (case map_of (schemas st1) (zid (onode base)) of
        None \<Rightarrow> Inr (None, st1)
      | Some entry \<Rightarrow>
          if unknownKeys base = Strict \<or> \<not> isZodType (catchall base) ''ZodNever''
          then Inr (None, st1)
          else
            (case createShapeDiff (shape base) (shape zo) of
               None \<Rightarrow> Inr (None, st1)
             | Some d \<Rightarrow>
                 (case createObjectSchemaFromShape cso d
                         \<lparr>opt_unknownKeys = Some (unknownKeys zo), opt_catchAll = catchall zo\<rparr> st1 of
                    Inl e \<Rightarrow> Inl e
                  | Inr (ext, st2) \<Rightarrow>
                      Inr (Some
                            \<lparr>kind = KSchema,
                             schema =
                               spread
                                 [(''allOf'',
                                   JArray [JObject [(''$ref'',
                                     JString (createComponentSchemaRef' (ref entry)
                                                (componentRefPath st2)))]])]
                                 (Some (schema ext)),
                             effects =
                               flattenEffects
                                 [if ctype entry = Complete then ceffects entry else Some [],
                                  if ctype entry = InProgress
                                  then Some [ComponentEffect (zid (onode zo)) (path st2)]
                                  else Some [],
                                  effects ext]\<rparr>,
                           st2))))"
  using assms
  by (simp add: createExtendedSchema_def createDiffOpts_def split: option.splits sum.splits)

lemma createExtendedSchema_base_Inl:
  "createExtendedSchema_base cso base st = Inl e \<Longrightarrow>
     createExtendedSchema cso zo (Some base) st = Inl e"
  by (simp add: createExtendedSchema_def)


lemma allOf_of_extension:
  assumes "map_of (schema ext) ''allOf'' = None"
  shows "map_of (spread [(''allOf'', v)] (Some (schema ext))) ''allOf'' = Some v"
  using map_of_assign_absent [OF assms, of "[(''allOf'', v)]"] by simp

lemma runChildren_stype:
  assumes "\<forall>z s p r s'. cso z s p = Inr (r, s') \<longrightarrow> stype s' = stype s"
  shows "runChildren cso calls st = Inr (frags, st1) \<Longrightarrow> stype st1 = stype st"
proof (induction calls arbitrary: st frags)
  case Nil
  then show ?case by simp
next
  case (Cons c calls)
  obtain z sub where c: "c = (z, sub)" by (cases c)
  from Cons.prems c obtain frag s1 frags' where
    1: "cso z st sub = Inr (frag, s1)" and 2: "runChildren cso calls s1 = Inr (frags', st1)"
    by (auto split: sum.splits)
  from assms 1 have "stype s1 = stype st" by blast
  with Cons.IH [OF 2] show ?case by simp
qed

lemma distinct_shape_value:
  "distinct (map fst shp) \<Longrightarrow> (k, z) \<in> set shp \<Longrightarrow> (k, z') \<in> set shp \<Longrightarrow> z' = z"
  by (meson eq_key_imp_eq_value)

lemma requiredOf_fragment:
  assumes "map_of s ''required'' =
       (if r = [] then None else Some (JArray (map JString r)))"
  shows "JString k \<in> set (requiredOf s) \<longleftrightarrow> k \<in> set r"
  using assms by (auto simp: requiredOf_def)

lemma createObjectSchemaFromShape_effects:
  assumes "createObjectSchemaFromShape cso shp opts st = Inr (sch, st')"
  shows "\<exists>frags st1 aps.
          runChildren cso (propertyChildren shp) st = Inr (frags, st1)
        \<and> runChildren cso (catchAllChildren opts) st1 = Inr (aps, st')
        \<and> effs (effects sch) =
            concat (map (\<lambda>f. effs (effects f)) (frags @ aps)) @ requiredEffects shp st1"
proof (rule createObjectSchemaFromShape_facts [OF assms])
  fix st1 ap frags
  assume f: "runChildren cso (propertyChildren shp) st = Inr (frags, st1)"
    and c: "if isZodType (opt_catchAll opts) ''ZodNever'' then ap = None \<and> st' = st1
     else \<exists>a. cso (opt_catchAll opts) st1 [''additional properties''] = Inr (a, st')
            \<and> ap = Some a"
    and e: "effs (effects sch) =
       concat (map (\<lambda>f. effs (effects f)) (frags @ (case ap of None \<Rightarrow> [] | Some a \<Rightarrow> [a])))
       @ requiredEffects shp st1"
  have "runChildren cso (catchAllChildren opts) st1
          = Inr (case ap of None \<Rightarrow> [] | Some a \<Rightarrow> [a], st')"
    using c by (rule runChildren_catchAll)
  with f e show ?thesis by blast
qed

lemma createExtendedSchema_SomeD:
  assumes a: "createExtendedSchema cso zo (Some base) st = Inr (Some sch, st')"
  shows "\<exists>st1 entry d x.
           createExtendedSchema_base cso base st = Inr st1
         \<and> map_of (schemas st1) (zid (onode base)) = Some entry
         \<and> unknownKeys base \<noteq> Strict \<and> isZodType (catchall base) ''ZodNever''
         \<and> createShapeDiff (shape base) (shape zo) = Some d
         \<and> createObjectSchemaFromShape cso d
              \<lparr>opt_unknownKeys = Some (unknownKeys zo), opt_catchAll = catchall zo\<rparr> st1
              = Inr (x, st')
         \<and> schema sch =
              spread
                [(''allOf'',
                  JArray [JObject [(''$ref'',
                    JString (createComponentSchemaRef' (ref entry) (componentRefPath st')))]])]
                (Some (schema x))
         \<and> effects sch =
              flattenEffects
                [if ctype entry = Complete then ceffects entry else Some [],
                 if ctype entry = InProgress
                 then Some [ComponentEffect (zid (onode zo)) (path st')]
                 else Some [],
                 effects x]"
proof -
  let ?opts = "\<lparr>opt_unknownKeys = Some (unknownKeys zo), opt_catchAll = catchall zo\<rparr>"
  from a obtain st1 where b: "createExtendedSchema_base cso base st = Inr st1"
    by (cases "createExtendedSchema_base cso base st")
       (auto simp: createExtendedSchema_base_Inl)
  note u = a [unfolded createExtendedSchema_unfold [OF b, of zo]]
  from u obtain entry where l: "map_of (schemas st1) (zid (onode base)) = Some entry"
    by (cases "map_of (schemas st1) (zid (onode base))") auto
  from u l have o: "unknownKeys base \<noteq> Strict" "isZodType (catchall base) ''ZodNever''"
    by (auto split: if_splits)
  from u l o obtain d where d: "createShapeDiff (shape base) (shape zo) = Some d"
    by (cases "createShapeDiff (shape base) (shape zo)") auto
  from u l o d obtain x st2 where
    x: "createObjectSchemaFromShape cso d ?opts st1 = Inr (x, st2)"
    by (cases "createObjectSchemaFromShape cso d ?opts st1") auto
  from u l o d x have "st2 = st'"
    and "schema sch =
              spread
                [(''allOf'',
                  JArray [JObject [(''$ref'',
                    JString (createComponentSchemaRef' (ref entry) (componentRefPath st')))]])]
                (Some (schema x))"
    and "effects sch =
              flattenEffects
                [if ctype entry = Complete then ceffects entry else Some [],
                 if ctype entry = InProgress
                 then Some [ComponentEffect (zid (onode zo)) (path st')]
                 else Some [],
                 effects x]"
    by auto
  with b l o d x show ?thesis by blast
qed

lemma fieldOptional_sentinel: "sentinel z \<Longrightarrow> fieldOptional m z"
  by (simp add: sentinel_def fieldOptional_def)

lemma required_names:
  "k \<in> set (map fst (filter (\<lambda>(k, z). \<not> fieldOptional m z) shp)) \<longleftrightarrow>
     (\<exists>z. (k, z) \<in> set shp \<and> \<not> fieldOptional m z)"
  by force

lemma createObjectSchemaFromShape_required:
  assumes "createObjectSchemaFromShape cso shp opts st = Inr (sch, st')"
  shows "\<exists>frags st1. runChildren cso (propertyChildren shp) st = Inr (frags, st1)
     \<and> (\<forall>k. JString k \<in> set (requiredOf (schema sch)) \<longleftrightarrow>
            (\<exists>z. (k, z) \<in> set shp \<and> \<not> fieldOptional (stype st1) z))"
proof (rule createObjectSchemaFromShape_facts [OF assms])
  fix st1 frags
  assume f: "runChildren cso (propertyChildren shp) st = Inr (frags, st1)"
    and r: "map_of (schema sch) ''required'' =
       (if map fst (filter (\<lambda>(k, z). \<not> fieldOptional (stype st1) z) shp) = [] then None
        else Some (JArray (map JString
               (map fst (filter (\<lambda>(k, z). \<not> fieldOptional (stype st1) z) shp)))))"
  from requiredOf_fragment [OF r] f show ?thesis
    unfolding required_names by blast
qed

lemma createObjectSchemaFromShape_properties:
  assumes "createObjectSchemaFromShape cso shp opts st = Inr (sch, st')"
  shows "fst ` set (propertiesOf (schema sch)) = {k. \<exists>z. (k, z) \<in> set shp \<and> \<not> sentinel z}"
proof (rule createObjectSchemaFromShape_facts [OF assms])
  fix props :: "PropertyMap option"
  assume n: "props = None \<longleftrightarrow> shp = []"
    and k: "\<And>pm. props = Some pm \<Longrightarrow>
       fst ` set (properties pm) = {k. \<exists>z. (k, z) \<in> set shp \<and> \<not> sentinel z}"
    and p: "map_of (schema sch) ''properties'' = map_option (\<lambda>pm. JObject (properties pm)) props"
  show ?thesis
  proof (cases props)
    case None
    with n p show ?thesis by (simp add: propertiesOf_def)
  next
    case (Some pm)
    with k [OF Some] p show ?thesis by (simp add: propertiesOf_def)
  qed
qed

lemma identical_refl: "identical z z"
  by (simp add: identical_def)

lemma exampleSchemaObject_state:
  "exampleSchemaObject z s p = Inr (r, s') \<Longrightarrow> s' = s"
  by (auto simp: exampleSchemaObject_def split: option.splits)

lemma exampleSchemaObject_stype:
  "\<forall>z s p r s'. exampleSchemaObject z s p = Inr (r, s') \<longrightarrow> stype s' = stype s"
  using exampleSchemaObject_state by blast

lemma createSchema_armOf:
  "createSchema g zodSchema components =
     (case armOf g zodSchema of
        LeafArm generate \<Rightarrow> (Inr (generate zodSchema), components)
      | CompositeArm generate \<Rightarrow> generate zodSchema components
      | NoArm \<Rightarrow> createSchema_unmatched zodSchema components)"
  by (cases zodSchema) (simp_all add: createSchema_def)

section \<open>The claims\<close>

text \<open>
  C1. The extension law fails for a field that is named like a member of
  \<^verbatim>\<open>Object.prototype\<close>. \<open>object4\<close> extends the registered base \<open>object1\<close> by the one field
  \<^verbatim>\<open>constructor\<close>: the base is a registry entry, it is not strict, its catch-all is the
  never sentinel, and the one field both have, \<open>a\<close>, is the identical node, so that the
  fragment should carry \<open>allOf\<close>. But \<^verbatim>\<open>baseObj['constructor']\<close> finds the member of the
  prototype, which is neither the node nor \<^verbatim>\<open>undefined\<close>; \<^verbatim>\<open>createShapeDiff\<close> returns
  \<^verbatim>\<open>null\<close>, and the fragment is the flat one.
\<close>

theorem prototype_key_blocks_allOf:
  "extends object4 = Some object1
   \<and> map_of (schemas (outputState [(1, \<lparr>ctype = Complete, ref = ''obj1'', ceffects = None\<rparr>)]))
        (zid (onode object1))
      = Some \<lparr>ctype = Complete, ref = ''obj1'', ceffects = None\<rparr>
   \<and> unknownKeys object1 \<noteq> Strict
   \<and> isZodType (catchall object1) ''ZodNever''
   \<and> map fst (shape object1) = [''a'']
   \<and> shape object4 = [(''a'', ZodString (plain 10)), (''constructor'', ZodString (plain 15))]
   \<and> map_of (shape object1) ''a'' = Some (ZodString (plain 10))
   \<and> identical (ZodString (plain 10)) (ZodString (plain 10))
   \<and> getProperty (shape object1) ''constructor'' = PrototypeMember
   \<and> createShapeDiff (shape object1) (shape object4) = None
   \<and> createObjectSchema exampleSchemaObject object4
        (outputState [(1, \<lparr>ctype = Complete, ref = ''obj1'', ceffects = None\<rparr>)])
      = Inr (\<lparr>kind = KSchema,
              schema =
                [(''type'', JString ''object''),
                 (''properties'',
                  JObject
                    [(''a'', JObject [(''type'', JString ''string'')]),
                     (''constructor'', JObject [(''type'', JString ''string'')])]),
                 (''required'', JArray [JString ''a'', JString ''constructor''])],
              effects = None\<rparr>,
             outputState [(1, \<lparr>ctype = Complete, ref = ''obj1'', ceffects = None\<rparr>)])
   \<and> map_of
         [(''type'', JString ''object''),
          (''properties'',
           JObject
             [(''a'', JObject [(''type'', JString ''string'')]),
              (''constructor'', JObject [(''type'', JString ''string'')])]),
          (''required'', JArray [JString ''a'', JString ''constructor''])] ''allOf''
      = None"
  by code_simp

text \<open>
  Apart from such names the extension law holds. An object node that declares an
  extension base is synthesized with an \<open>allOf\<close> entry exactly when the base is a
  registry entry in the state in which it is looked up, the base's unknown-keys policy is
  not \<open>strict\<close>, the base's catch-all is the never sentinel, every field of the extension
  whose key the base has too is the identical node, and no field the extension adds is
  named like a member of \<^verbatim>\<open>Object.prototype\<close>. The state of the lookup is the one the
  synthesis of the base through the dispatcher leaves behind, when the base is in the
  registry or asks for a name, and the given state otherwise. The entry references the
  base by its registered name; without it the fragment is the flat object fragment of the
  full shape.
\<close>

theorem extension_allOf_iff:
  assumes ext: "extends zodObject = Some base"
    and res: "createObjectSchema cso zodObject st = Inr (sch, st')"
  shows "\<exists>st1.
       (if map_of (schemas st) (zid (onode base)) \<noteq> None
            \<or> truthy_opt (openapi_field (onode base) ''ref'')
        then \<exists>fragment. cso (ZodObject base) st [''extended schema''] = Inr (fragment, st1)
        else st1 = st)
     \<and> (map_of (schema sch) ''allOf'' \<noteq> None \<longleftrightarrow>
          map_of (schemas st1) (zid (onode base)) \<noteq> None
          \<and> unknownKeys base \<noteq> Strict
          \<and> isZodType (catchall base) ''ZodNever''
          \<and> (\<forall>(k, v) \<in> set (shape zodObject).
                (\<forall>b. map_of (shape base) k = Some b \<longrightarrow> identical v b)
                \<and> (map_of (shape base) k = None \<longrightarrow> k \<notin> set objectPrototypeKeys)))
     \<and> (\<forall>entry. map_of (schemas st1) (zid (onode base)) = Some entry
            \<and> map_of (schema sch) ''allOf'' \<noteq> None \<longrightarrow>
          map_of (schema sch) ''allOf'' =
            Some (JArray [JObject [(''$ref'',
              JString (createComponentSchemaRef' (ref entry) (componentRefPath st')))]]))
     \<and> (map_of (schema sch) ''allOf'' = None \<longrightarrow>
          createObjectSchemaFromShape cso (shape zodObject)
            \<lparr>opt_unknownKeys = Some (unknownKeys zodObject), opt_catchAll = catchall zodObject\<rparr>
            st1 = Inr (sch, st'))"
proof -
  from res ext obtain st1 where b: "createExtendedSchema_base cso base st = Inr st1"
    by (cases "createExtendedSchema_base cso base st")
       (auto simp: createObjectSchema_def createExtendedSchema_base_Inl)
  from b have b': "if map_of (schemas st) (zid (onode base)) \<noteq> None
            \<or> truthy_opt (openapi_field (onode base) ''ref'')
        then \<exists>fragment. cso (ZodObject base) st [''extended schema''] = Inr (fragment, st1)
        else st1 = st"
    by (simp only: createExtendedSchema_base_Inr_iff)
  note u = createExtendedSchema_unfold [OF b, of zodObject]
  let ?opts = "\<lparr>opt_unknownKeys = Some (unknownKeys zodObject), opt_catchAll = catchall zodObject\<rparr>"
  let ?ok = "map_of (schemas st1) (zid (onode base)) \<noteq> None
          \<and> unknownKeys base \<noteq> Strict
          \<and> isZodType (catchall base) ''ZodNever''
          \<and> (\<forall>(k, v) \<in> set (shape zodObject).
                (\<forall>b. map_of (shape base) k = Some b \<longrightarrow> identical v b)
                \<and> (map_of (shape base) k = None \<longrightarrow> k \<notin> set objectPrototypeKeys))"
  show ?thesis
  proof (cases ?ok)
    case True
    then obtain entry where l: "map_of (schemas st1) (zid (onode base)) = Some entry"
      by auto
    from True have "createShapeDiff (shape base) (shape zodObject) \<noteq> None"
      unfolding createShapeDiff_None_iff by blast
    then obtain d where d: "createShapeDiff (shape base) (shape zodObject) = Some d"
      by auto
    from u l d True have e: "createExtendedSchema cso zodObject (Some base) st =
        (case createObjectSchemaFromShape cso d ?opts st1 of
           Inl e \<Rightarrow> Inl e
         | Inr (x, st2) \<Rightarrow>
             Inr (Some
                   \<lparr>kind = KSchema,
                    schema =
                      spread
                        [(''allOf'',
                          JArray [JObject [(''$ref'',
                            JString (createComponentSchemaRef' (ref entry)
                                       (componentRefPath st2)))]])]
                        (Some (schema x)),
                    effects =
                      flattenEffects
                        [if ctype entry = Complete then ceffects entry else Some [],
                         if ctype entry = InProgress
                         then Some [ComponentEffect (zid (onode zodObject)) (path st2)]
                         else Some [],
                         effects x]\<rparr>,
                  st2))"
      by simp
    from res ext e obtain x where
      x: "createObjectSchemaFromShape cso d ?opts st1 = Inr (x, st')"
      and s: "schema sch =
                spread
                  [(''allOf'',
                    JArray [JObject [(''$ref'',
                      JString (createComponentSchemaRef' (ref entry)
                                 (componentRefPath st')))]])]
                  (Some (schema x))"
      by (auto simp: createObjectSchema_def split: sum.splits)
    from createObjectSchemaFromShape_facts [OF x]
    have "map_of (schema x) ''allOf'' = None" by metis
    from allOf_of_extension [OF this] s
    have a: "map_of (schema sch) ''allOf'' =
            Some (JArray [JObject [(''$ref'',
              JString (createComponentSchemaRef' (ref entry) (componentRefPath st')))]])"
      by simp
    have 1: "map_of (schema sch) ''allOf'' \<noteq> None \<longleftrightarrow> ?ok"
      using a True by simp
    have 2: "\<forall>entry. map_of (schemas st1) (zid (onode base)) = Some entry
            \<and> map_of (schema sch) ''allOf'' \<noteq> None \<longrightarrow>
          map_of (schema sch) ''allOf'' =
            Some (JArray [JObject [(''$ref'',
              JString (createComponentSchemaRef' (ref entry) (componentRefPath st')))]])"
      using a l by simp
    have 3: "map_of (schema sch) ''allOf'' = None \<longrightarrow>
          createObjectSchemaFromShape cso (shape zodObject) ?opts st1 = Inr (sch, st')"
      using a by simp
    show ?thesis by (rule exI [of _ st1]) (intro conjI b' 1 2 3)
  next
    case False
    then have "map_of (schemas st1) (zid (onode base)) = None
        \<or> unknownKeys base = Strict \<or> \<not> isZodType (catchall base) ''ZodNever''
        \<or> createShapeDiff (shape base) (shape zodObject) = None"
      unfolding createShapeDiff_None_iff by blast
    with u have "createExtendedSchema cso zodObject (Some base) st = Inr (None, st1)"
      by (auto split: option.splits)
    with res ext have
      f: "createObjectSchemaFromShape cso (shape zodObject) ?opts st1 = Inr (sch, st')"
      by (simp add: createObjectSchema_def)
    from createObjectSchemaFromShape_facts [OF f]
    have n: "map_of (schema sch) ''allOf'' = None" by metis
    have 1: "map_of (schema sch) ''allOf'' \<noteq> None \<longleftrightarrow> ?ok"
      using n False by simp
    have 2: "\<forall>entry. map_of (schemas st1) (zid (onode base)) = Some entry
            \<and> map_of (schema sch) ''allOf'' \<noteq> None \<longrightarrow>
          map_of (schema sch) ''allOf'' =
            Some (JArray [JObject [(''$ref'',
              JString (createComponentSchemaRef' (ref entry) (componentRefPath st')))]])"
      using n by simp
    have 3: "map_of (schema sch) ''allOf'' = None \<longrightarrow>
          createObjectSchemaFromShape cso (shape zodObject) ?opts st1 = Inr (sch, st')"
      using f by simp
    show ?thesis by (rule exI [of _ st1]) (intro conjI b' 1 2 3)
  qed
qed

text \<open>
  A witness: the extension of the tests adds a field; the override of a field falls back;
  a base that is not registered yet becomes a registry entry by its synthesis.
\<close>

theorem extension_allOf_iff_witness:
  "extends object2 = Some object1
   \<and> createObjectSchema exampleSchemaObject object2
        (outputState [(1, \<lparr>ctype = Complete, ref = ''obj1'', ceffects = None\<rparr>)])
      = Inr (\<lparr>kind = KSchema,
              schema =
                [(''allOf'', JArray [JObject [(''$ref'', JString ''#/components/schemas/obj1'')]]),
                 (''type'', JString ''object''),
                 (''properties'', JObject [(''b'', JObject [(''type'', JString ''string'')])]),
                 (''required'', JArray [JString ''b''])],
              effects = None\<rparr>,
             outputState [(1, \<lparr>ctype = Complete, ref = ''obj1'', ceffects = None\<rparr>)])
   \<and> extends object3 = Some object1
   \<and> createObjectSchema exampleSchemaObject object3
        (outputState [(1, \<lparr>ctype = Complete, ref = ''obj1'', ceffects = None\<rparr>)])
      = Inr (\<lparr>kind = KSchema,
              schema =
                [(''type'', JString ''object''),
                 (''properties'', JObject [(''a'', JObject [(''type'', JString ''number'')])]),
                 (''required'', JArray [JString ''a''])],
              effects = None\<rparr>,
             outputState [(1, \<lparr>ctype = Complete, ref = ''obj1'', ceffects = None\<rparr>)])
   \<and> map_of (schemas (outputState [])) (zid (onode object1)) = None
   \<and> truthy_opt (openapi_field (onode object1) ''ref'')
   \<and> registeringSchemaObject (ZodObject object1) (outputState []) [''extended schema'']
      = Inr (\<lparr>kind = KRef,
              schema = [(''$ref'', JString ''#/components/schemas/obj1'')],
              effects = None\<rparr>,
             outputState [(1, \<lparr>ctype = Complete, ref = ''obj1'', ceffects = None\<rparr>)])
   \<and> createObjectSchema registeringSchemaObject object2 (outputState [])
      = Inr (\<lparr>kind = KSchema,
              schema =
                [(''allOf'', JArray [JObject [(''$ref'', JString ''#/components/schemas/obj1'')]]),
                 (''type'', JString ''object''),
                 (''properties'', JObject [(''b'', JObject [(''type'', JString ''string'')])]),
                 (''required'', JArray [JString ''b''])],
              effects = None\<rparr>,
             outputState [(1, \<lparr>ctype = Complete, ref = ''obj1'', ceffects = None\<rparr>)])"
proof -
  let ?st = "outputState [(1, \<lparr>ctype = Complete, ref = ''obj1'', ceffects = None\<rparr>)]"
  let ?s2 = "\<lparr>kind = KSchema,
              schema =
                [(''allOf'', JArray [JObject [(''$ref'', JString ''#/components/schemas/obj1'')]]),
                 (''type'', JString ''object''),
                 (''properties'', JObject [(''b'', JObject [(''type'', JString ''string'')])]),
                 (''required'', JArray [JString ''b''])],
              effects = None\<rparr>"
  let ?s3 = "\<lparr>kind = KSchema,
              schema =
                [(''type'', JString ''object''),
                 (''properties'', JObject [(''a'', JObject [(''type'', JString ''number'')])]),
                 (''required'', JArray [JString ''a''])],
              effects = None\<rparr>"
  have e2: "extends object2 = Some object1" by (simp add: object2_def)
  have r2: "createObjectSchema exampleSchemaObject object2 ?st = Inr (?s2, ?st)" by code_simp
  have e3: "extends object3 = Some object1" by (simp add: object3_def)
  have r3: "createObjectSchema exampleSchemaObject object3 ?st = Inr (?s3, ?st)" by code_simp
  have n: "map_of (schemas (outputState [])) (zid (onode object1)) = None" by code_simp
  have t: "truthy_opt (openapi_field (onode object1) ''ref'')" by code_simp
  have c: "registeringSchemaObject (ZodObject object1) (outputState []) [''extended schema'']
      = Inr (\<lparr>kind = KRef,
              schema = [(''$ref'', JString ''#/components/schemas/obj1'')],
              effects = None\<rparr>, ?st)"
    by code_simp
  have r4: "createObjectSchema registeringSchemaObject object2 (outputState []) = Inr (?s2, ?st)"
    by code_simp
  note w2 = extension_allOf_iff [OF e2 r2]
  note w3 = extension_allOf_iff [OF e3 r3]
  note w4 = extension_allOf_iff [OF e2 r4]
  have "extends object2 = Some object1
      \<and> createObjectSchema exampleSchemaObject object2 ?st = Inr (?s2, ?st)
      \<and> extends object3 = Some object1
      \<and> createObjectSchema exampleSchemaObject object3 ?st = Inr (?s3, ?st)
      \<and> map_of (schemas (outputState [])) (zid (onode object1)) = None
      \<and> truthy_opt (openapi_field (onode object1) ''ref'')
      \<and> registeringSchemaObject (ZodObject object1) (outputState []) [''extended schema'']
          = Inr (\<lparr>kind = KRef,
              schema = [(''$ref'', JString ''#/components/schemas/obj1'')],
              effects = None\<rparr>, ?st)
      \<and> createObjectSchema registeringSchemaObject object2 (outputState []) = Inr (?s2, ?st)"
    using w2 w3 w4 by (intro conjI e2 r2 e3 r3 n t c r4)
  then show ?thesis .
qed

text \<open>
  C4, as amended. The effect list of an object fragment is the concatenation of the effect
  lists of the fragments returned for its children in traversal order (the fields that
  are no sentinels in declaration order, then the catch-all), followed by the effects
  generated at the level of the object (what the required-field test records for its
  fields). For an extension, the fragment that the nested synthesis of the base returns
  is not used, its effects included: the list starts with the effects stored in the
  base's registry entry when the entry is complete, or with one \<open>component\<close> effect for
  the extending node when it is in progress; the children and the level effects of the
  added fields follow.
\<close>

theorem effects_complete:
  "(createObjectSchemaFromShape cso shp opts st = Inr (sch, st') \<longrightarrow>
      (\<exists>frags st1 aps.
          runChildren cso (propertyChildren shp) st = Inr (frags, st1)
        \<and> runChildren cso (catchAllChildren opts) st1 = Inr (aps, st')
        \<and> effs (effects sch) =
            concat (map (\<lambda>f. effs (effects f)) (frags @ aps)) @ requiredEffects shp st1))
   \<and> (createExtendedSchema cso zodObject (Some base) st = Inr (Some sch, st') \<longrightarrow>
      (\<exists>st1 entry d frags st2 aps.
          (if map_of (schemas st) (zid (onode base)) \<noteq> None
               \<or> truthy_opt (openapi_field (onode base) ''ref'')
           then \<exists>fragment. cso (ZodObject base) st [''extended schema''] = Inr (fragment, st1)
           else st1 = st)
        \<and> map_of (schemas st1) (zid (onode base)) = Some entry
        \<and> createShapeDiff (shape base) (shape zodObject) = Some d
        \<and> runChildren cso (propertyChildren d) st1 = Inr (frags, st2)
        \<and> runChildren cso
              (catchAllChildren
                 \<lparr>opt_unknownKeys = Some (unknownKeys zodObject),
                  opt_catchAll = catchall zodObject\<rparr>) st2 = Inr (aps, st')
        \<and> effs (effects sch) =
            (if ctype entry = Complete then effs (ceffects entry) else [])
            @ (if ctype entry = InProgress
               then [ComponentEffect (zid (onode zodObject)) (path st')] else [])
            @ concat (map (\<lambda>f. effs (effects f)) (frags @ aps)) @ requiredEffects d st2))"
proof (intro conjI impI)
  assume "createObjectSchemaFromShape cso shp opts st = Inr (sch, st')"
  then show "\<exists>frags st1 aps.
          runChildren cso (propertyChildren shp) st = Inr (frags, st1)
        \<and> runChildren cso (catchAllChildren opts) st1 = Inr (aps, st')
        \<and> effs (effects sch) =
            concat (map (\<lambda>f. effs (effects f)) (frags @ aps)) @ requiredEffects shp st1"
    by (rule createObjectSchemaFromShape_effects)
next
  let ?opts = "\<lparr>opt_unknownKeys = Some (unknownKeys zodObject), opt_catchAll = catchall zodObject\<rparr>"
  assume "createExtendedSchema cso zodObject (Some base) st = Inr (Some sch, st')"
  from createExtendedSchema_SomeD [OF this] obtain st1 entry d x where
    b: "createExtendedSchema_base cso base st = Inr st1"
    and l: "map_of (schemas st1) (zid (onode base)) = Some entry"
    and d: "createShapeDiff (shape base) (shape zodObject) = Some d"
    and x: "createObjectSchemaFromShape cso d ?opts st1 = Inr (x, st')"
    and f: "effects sch =
              flattenEffects
                [if ctype entry = Complete then ceffects entry else Some [],
                 if ctype entry = InProgress
                 then Some [ComponentEffect (zid (onode zodObject)) (path st')]
                 else Some [],
                 effects x]"
    by blast
  from b have b': "if map_of (schemas st) (zid (onode base)) \<noteq> None
               \<or> truthy_opt (openapi_field (onode base) ''ref'')
           then \<exists>fragment. cso (ZodObject base) st [''extended schema''] = Inr (fragment, st1)
           else st1 = st"
    by (simp only: createExtendedSchema_base_Inr_iff)
  from createObjectSchemaFromShape_effects [OF x] obtain frags st2 aps where
    r: "runChildren cso (propertyChildren d) st1 = Inr (frags, st2)"
       "runChildren cso (catchAllChildren ?opts) st2 = Inr (aps, st')"
       "effs (effects x) =
          concat (map (\<lambda>f. effs (effects f)) (frags @ aps)) @ requiredEffects d st2"
    by blast
  have e: "effs (effects sch) =
            (if ctype entry = Complete then effs (ceffects entry) else [])
            @ (if ctype entry = InProgress
               then [ComponentEffect (zid (onode zodObject)) (path st')] else [])
            @ concat (map (\<lambda>f. effs (effects f)) (frags @ aps)) @ requiredEffects d st2"
    unfolding f using r(3) by (simp add: effs_flattenEffects)
  show "\<exists>st1 entry d frags st2 aps.
          (if map_of (schemas st) (zid (onode base)) \<noteq> None
               \<or> truthy_opt (openapi_field (onode base) ''ref'')
           then \<exists>fragment. cso (ZodObject base) st [''extended schema''] = Inr (fragment, st1)
           else st1 = st)
        \<and> map_of (schemas st1) (zid (onode base)) = Some entry
        \<and> createShapeDiff (shape base) (shape zodObject) = Some d
        \<and> runChildren cso (propertyChildren d) st1 = Inr (frags, st2)
        \<and> runChildren cso (catchAllChildren ?opts) st2 = Inr (aps, st')
        \<and> effs (effects sch) =
            (if ctype entry = Complete then effs (ceffects entry) else [])
            @ (if ctype entry = InProgress
               then [ComponentEffect (zid (onode zodObject)) (path st')] else [])
            @ concat (map (\<lambda>f. effs (effects f)) (frags @ aps)) @ requiredEffects d st2"
    by (intro exI conjI) (rule b' l d r(1) r(2) e)+
qed

text \<open>
  A witness: the default field of \<open>fieldsShape\<close> in output mode, and the extension of a
  complete base that has stored an effect.
\<close>

theorem effects_complete_witness:
  "createObjectSchemaFromShape exampleSchemaObject fieldsShape noCatchAll (outputState [])
     = Inr (\<lparr>kind = KSchema,
             schema =
               [(''type'', JString ''object''),
                (''properties'',
                 JObject
                   [(''a'', JObject [(''type'', JString ''string'')]),
                    (''b'', JObject [(''type'', JString ''string'')]),
                    (''c'', JObject [(''type'', JString ''string'')])]),
                (''required'', JArray [JString ''a'', JString ''c''])],
             effects = Some [SchemaEffect Output 13 [''property: c'']]\<rparr>,
            outputState [])
   \<and> requiredEffects fieldsShape (outputState []) = [SchemaEffect Output 13 [''property: c'']]
   \<and> createExtendedSchema exampleSchemaObject object2 (Some object1)
        (outputState [(1, \<lparr>ctype = Complete, ref = ''obj1'',
                           ceffects = Some [SchemaEffect Output 7 [''property: x'']]\<rparr>)])
      = Inr (Some
              \<lparr>kind = KSchema,
               schema =
                 [(''allOf'', JArray [JObject [(''$ref'', JString ''#/components/schemas/obj1'')]]),
                  (''type'', JString ''object''),
                  (''properties'', JObject [(''b'', JObject [(''type'', JString ''string'')])]),
                  (''required'', JArray [JString ''b''])],
               effects = Some [SchemaEffect Output 7 [''property: x'']]\<rparr>,
             outputState [(1, \<lparr>ctype = Complete, ref = ''obj1'',
                                ceffects = Some [SchemaEffect Output 7 [''property: x'']]\<rparr>)])"
proof -
  let ?s = "\<lparr>kind = KSchema,
             schema =
               [(''type'', JString ''object''),
                (''properties'',
                 JObject
                   [(''a'', JObject [(''type'', JString ''string'')]),
                    (''b'', JObject [(''type'', JString ''string'')]),
                    (''c'', JObject [(''type'', JString ''string'')])]),
                (''required'', JArray [JString ''a'', JString ''c''])],
             effects = Some [SchemaEffect Output 13 [''property: c'']]\<rparr>"
  let ?st = "outputState [(1, \<lparr>ctype = Complete, ref = ''obj1'',
                                ceffects = Some [SchemaEffect Output 7 [''property: x'']]\<rparr>)]"
  let ?x = "\<lparr>kind = KSchema,
               schema =
                 [(''allOf'', JArray [JObject [(''$ref'', JString ''#/components/schemas/obj1'')]]),
                  (''type'', JString ''object''),
                  (''properties'', JObject [(''b'', JObject [(''type'', JString ''string'')])]),
                  (''required'', JArray [JString ''b''])],
               effects = Some [SchemaEffect Output 7 [''property: x'']]\<rparr>"
  have r: "createObjectSchemaFromShape exampleSchemaObject fieldsShape noCatchAll (outputState [])
             = Inr (?s, outputState [])"
    by code_simp
  have q: "requiredEffects fieldsShape (outputState []) = [SchemaEffect Output 13 [''property: c'']]"
    by code_simp
  have e: "createExtendedSchema exampleSchemaObject object2 (Some object1) ?st = Inr (Some ?x, ?st)"
    by code_simp
  from r q e
    effects_complete [where cso = exampleSchemaObject and shp = fieldsShape and opts = noCatchAll
      and st = "outputState []" and sch = ?s and st' = "outputState []"]
  show ?thesis by blast
qed

text \<open>
  The claim as stated fails for an extension: the nested synthesis of a base in progress
  returns a \<open>component\<close> effect for the base at the path of that call, and the effect
  list of the extension does not contain it.
\<close>

theorem base_fragment_effects_counterexample:
  "exampleSchemaObject (ZodObject object1)
      (outputState [(1, \<lparr>ctype = InProgress, ref = ''obj1'', ceffects = None\<rparr>)])
      [''extended schema'']
     = Inr (\<lparr>kind = KRef,
             schema = [(''$ref'', JString ''#/components/schemas/obj1'')],
             effects = Some [ComponentEffect 1 [''extended schema'']]\<rparr>,
            outputState [(1, \<lparr>ctype = InProgress, ref = ''obj1'', ceffects = None\<rparr>)])
   \<and> createExtendedSchema exampleSchemaObject object2 (Some object1)
        (outputState [(1, \<lparr>ctype = InProgress, ref = ''obj1'', ceffects = None\<rparr>)])
     = Inr (Some
             \<lparr>kind = KSchema,
              schema =
                [(''allOf'', JArray [JObject [(''$ref'', JString ''#/components/schemas/obj1'')]]),
                 (''type'', JString ''object''),
                 (''properties'', JObject [(''b'', JObject [(''type'', JString ''string'')])]),
                 (''required'', JArray [JString ''b''])],
              effects = Some [ComponentEffect 2 []]\<rparr>,
            outputState [(1, \<lparr>ctype = InProgress, ref = ''obj1'', ceffects = None\<rparr>)])
   \<and> ComponentEffect 1 [''extended schema''] \<notin> set [ComponentEffect 2 []]"
  by code_simp

text \<open>
  C9. When the extension of a registered base is emitted, the fragment has the \<open>allOf\<close>
  reference to the base whatever the state of the base's registry entry. If the entry is
  in progress, the effect list starts with one \<open>component\<close> effect for the extending
  node at the current traversal path, where the base's effects would stand; if it is
  complete, the effect list starts with the effects stored in the entry. The effects of
  the fragment of the added fields follow.
\<close>

theorem extension_base_effects:
  assumes ext: "extends zodObject = Some base"
    and res: "createObjectSchema cso zodObject st = Inr (sch, st')"
    and b: "createExtendedSchema_base cso base st = Inr st1"
    and l: "map_of (schemas st1) (zid (onode base)) = Some entry"
    and o: "unknownKeys base \<noteq> Strict" "isZodType (catchall base) ''ZodNever''"
    and d: "createShapeDiff (shape base) (shape zodObject) = Some d"
  shows "\<exists>x. createObjectSchemaFromShape cso d
               \<lparr>opt_unknownKeys = Some (unknownKeys zodObject), opt_catchAll = catchall zodObject\<rparr>
               st1 = Inr (x, st')
     \<and> map_of (schema sch) ''allOf'' =
          Some (JArray [JObject [(''$ref'',
            JString (createComponentSchemaRef' (ref entry) (componentRefPath st')))]])
     \<and> (ctype entry = InProgress \<longrightarrow>
          effs (effects sch) = ComponentEffect (zid (onode zodObject)) (path st') # effs (effects x))
     \<and> (ctype entry = Complete \<longrightarrow>
          effs (effects sch) = effs (ceffects entry) @ effs (effects x))"
proof -
  let ?opts = "\<lparr>opt_unknownKeys = Some (unknownKeys zodObject), opt_catchAll = catchall zodObject\<rparr>"
  from createExtendedSchema_unfold [OF b, of zodObject] l o d
  have e: "createExtendedSchema cso zodObject (Some base) st =
        (case createObjectSchemaFromShape cso d ?opts st1 of
           Inl e \<Rightarrow> Inl e
         | Inr (x, st2) \<Rightarrow>
             Inr (Some
                   \<lparr>kind = KSchema,
                    schema =
                      spread
                        [(''allOf'',
                          JArray [JObject [(''$ref'',
                            JString (createComponentSchemaRef' (ref entry)
                                       (componentRefPath st2)))]])]
                        (Some (schema x)),
                    effects =
                      flattenEffects
                        [if ctype entry = Complete then ceffects entry else Some [],
                         if ctype entry = InProgress
                         then Some [ComponentEffect (zid (onode zodObject)) (path st2)]
                         else Some [],
                         effects x]\<rparr>,
                  st2))"
    by simp
  from res ext e obtain x where
    x: "createObjectSchemaFromShape cso d ?opts st1 = Inr (x, st')"
    and s: "schema sch =
              spread
                [(''allOf'',
                  JArray [JObject [(''$ref'',
                    JString (createComponentSchemaRef' (ref entry)
                               (componentRefPath st')))]])]
                (Some (schema x))"
    and f: "effects sch =
              flattenEffects
                [if ctype entry = Complete then ceffects entry else Some [],
                 if ctype entry = InProgress
                 then Some [ComponentEffect (zid (onode zodObject)) (path st')]
                 else Some [],
                 effects x]"
    by (auto simp: createObjectSchema_def split: sum.splits)
  from createObjectSchemaFromShape_facts [OF x]
  have "map_of (schema x) ''allOf'' = None" by metis
  from allOf_of_extension [OF this] s
  have a: "map_of (schema sch) ''allOf'' =
          Some (JArray [JObject [(''$ref'',
            JString (createComponentSchemaRef' (ref entry) (componentRefPath st')))]])"
    by simp
  have i: "ctype entry = InProgress \<longrightarrow>
          effs (effects sch) = ComponentEffect (zid (onode zodObject)) (path st') # effs (effects x)"
    unfolding f by (simp add: effs_flattenEffects)
  have c: "ctype entry = Complete \<longrightarrow>
          effs (effects sch) = effs (ceffects entry) @ effs (effects x)"
    unfolding f by (simp add: effs_flattenEffects)
  from x a i c show ?thesis by blast
qed

text \<open>A witness: the extension of the tests while its base is in progress.\<close>

theorem extension_base_effects_witness:
  "extends object2 = Some object1
   \<and> createObjectSchema exampleSchemaObject object2
        (outputState [(1, \<lparr>ctype = InProgress, ref = ''obj1'', ceffects = None\<rparr>)])
      = Inr (\<lparr>kind = KSchema,
              schema =
                [(''allOf'', JArray [JObject [(''$ref'', JString ''#/components/schemas/obj1'')]]),
                 (''type'', JString ''object''),
                 (''properties'', JObject [(''b'', JObject [(''type'', JString ''string'')])]),
                 (''required'', JArray [JString ''b''])],
              effects = Some [ComponentEffect 2 []]\<rparr>,
             outputState [(1, \<lparr>ctype = InProgress, ref = ''obj1'', ceffects = None\<rparr>)])
   \<and> createExtendedSchema_base exampleSchemaObject object1
        (outputState [(1, \<lparr>ctype = InProgress, ref = ''obj1'', ceffects = None\<rparr>)])
      = Inr (outputState [(1, \<lparr>ctype = InProgress, ref = ''obj1'', ceffects = None\<rparr>)])
   \<and> map_of (schemas (outputState [(1, \<lparr>ctype = InProgress, ref = ''obj1'', ceffects = None\<rparr>)]))
        (zid (onode object1))
      = Some \<lparr>ctype = InProgress, ref = ''obj1'', ceffects = None\<rparr>
   \<and> unknownKeys object1 \<noteq> Strict
   \<and> isZodType (catchall object1) ''ZodNever''
   \<and> createShapeDiff (shape object1) (shape object2) = Some [(''b'', ZodString (plain 11))]
   \<and> (\<exists>x. createObjectSchemaFromShape exampleSchemaObject [(''b'', ZodString (plain 11))]
               \<lparr>opt_unknownKeys = Some (unknownKeys object2), opt_catchAll = catchall object2\<rparr>
               (outputState [(1, \<lparr>ctype = InProgress, ref = ''obj1'', ceffects = None\<rparr>)])
             = Inr (x, outputState [(1, \<lparr>ctype = InProgress, ref = ''obj1'', ceffects = None\<rparr>)])
           \<and> [ComponentEffect 2 []]
               = ComponentEffect (zid (onode object2))
                   (path (outputState [(1, \<lparr>ctype = InProgress, ref = ''obj1'',
                                               ceffects = None\<rparr>)]))
                 # effs (effects x))"
proof -
  let ?entry = "\<lparr>ctype = InProgress, ref = ''obj1'', ceffects = None\<rparr>"
  let ?st = "outputState [(1, ?entry)]"
  let ?s = "\<lparr>kind = KSchema,
              schema =
                [(''allOf'', JArray [JObject [(''$ref'', JString ''#/components/schemas/obj1'')]]),
                 (''type'', JString ''object''),
                 (''properties'', JObject [(''b'', JObject [(''type'', JString ''string'')])]),
                 (''required'', JArray [JString ''b''])],
              effects = Some [ComponentEffect 2 []]\<rparr>"
  have e: "extends object2 = Some object1" by (simp add: object2_def)
  have r: "createObjectSchema exampleSchemaObject object2 ?st = Inr (?s, ?st)" by code_simp
  have b: "createExtendedSchema_base exampleSchemaObject object1 ?st = Inr ?st" by code_simp
  have l: "map_of (schemas ?st) (zid (onode object1)) = Some ?entry" by code_simp
  have u: "unknownKeys object1 \<noteq> Strict" by (simp add: object1_def)
  have n: "isZodType (catchall object1) ''ZodNever''" by (simp add: object1_def isZodType_def)
  have d: "createShapeDiff (shape object1) (shape object2) = Some [(''b'', ZodString (plain 11))]"
    by code_simp
  have p: "ctype ?entry = InProgress" by simp
  from extension_base_effects [OF e r b l u n d] p
  have "\<exists>x. createObjectSchemaFromShape exampleSchemaObject [(''b'', ZodString (plain 11))]
               \<lparr>opt_unknownKeys = Some (unknownKeys object2), opt_catchAll = catchall object2\<rparr>
               ?st = Inr (x, ?st)
           \<and> effs (effects ?s) = ComponentEffect (zid (onode object2)) (path ?st) # effs (effects x)"
    by blast
  then have "\<exists>x. createObjectSchemaFromShape exampleSchemaObject [(''b'', ZodString (plain 11))]
               \<lparr>opt_unknownKeys = Some (unknownKeys object2), opt_catchAll = catchall object2\<rparr>
               ?st = Inr (x, ?st)
           \<and> [ComponentEffect 2 []] = ComponentEffect (zid (onode object2)) (path ?st) # effs (effects x)"
    by simp
  with e r b l u n d show ?thesis by blast
qed

text \<open>
  C2, as amended. In the fragment of an object shape (its field names distinct, the
  dispatcher leaving the mode of the state as it is), a field name is absent from the
  \<open>required\<close> list exactly when the field's node is an \<open>optional\<close> wrapper, a \<open>default\<close>
  wrapper while the mode is input, or the never or undefined sentinel.
\<close>

theorem required_field_law:
  assumes res: "createObjectSchemaFromShape cso shp opts st = Inr (sch, st')"
    and dist: "distinct (map fst shp)"
    and field: "(k, z) \<in> set shp"
    and mode: "\<forall>z s p r s'. cso z s p = Inr (r, s') \<longrightarrow> stype s' = stype s"
  shows "JString k \<notin> set (requiredOf (schema sch)) \<longleftrightarrow>
           isZodType z ''ZodOptional''
         \<or> (isZodType z ''ZodDefault'' \<and> stype st = Input)
         \<or> isZodType z ''ZodNever'' \<or> isZodType z ''ZodUndefined''"
proof -
  from createObjectSchemaFromShape_required [OF res] obtain frags st1 where
    f: "runChildren cso (propertyChildren shp) st = Inr (frags, st1)"
    and r: "\<And>k. JString k \<in> set (requiredOf (schema sch)) \<longleftrightarrow>
            (\<exists>z. (k, z) \<in> set shp \<and> \<not> fieldOptional (stype st1) z)"
    by blast
  from runChildren_stype [OF mode f] have m: "stype st1 = stype st" .
  have "(\<exists>z'. (k, z') \<in> set shp \<and> \<not> fieldOptional (stype st) z')
          \<longleftrightarrow> \<not> fieldOptional (stype st) z"
    using distinct_shape_value [OF dist field] field by blast
  with r [of k] m show ?thesis
    by (simp add: fieldOptional_def)
qed

text \<open>A witness: the default field \<open>c\<close> in input mode.\<close>

theorem required_field_law_witness:
  "createObjectSchemaFromShape exampleSchemaObject fieldsShape noCatchAll (inputState [])
     = Inr (\<lparr>kind = KSchema,
             schema =
               [(''type'', JString ''object''),
                (''properties'',
                 JObject
                   [(''a'', JObject [(''type'', JString ''string'')]),
                    (''b'', JObject [(''type'', JString ''string'')]),
                    (''c'', JObject [(''type'', JString ''string'')])]),
                (''required'', JArray [JString ''a''])],
             effects = Some [SchemaEffect Input 13 [''property: c'']]\<rparr>,
            inputState [])
   \<and> distinct (map fst fieldsShape)
   \<and> (''c'', ZodDefault (plain 13) (ZodString (plain 14))) \<in> set fieldsShape
   \<and> JString ''c'' \<notin> set (requiredOf
         [(''type'', JString ''object''),
          (''properties'',
           JObject
             [(''a'', JObject [(''type'', JString ''string'')]),
              (''b'', JObject [(''type'', JString ''string'')]),
              (''c'', JObject [(''type'', JString ''string'')])]),
          (''required'', JArray [JString ''a''])])"
proof -
  let ?s = "\<lparr>kind = KSchema,
             schema =
               [(''type'', JString ''object''),
                (''properties'',
                 JObject
                   [(''a'', JObject [(''type'', JString ''string'')]),
                    (''b'', JObject [(''type'', JString ''string'')]),
                    (''c'', JObject [(''type'', JString ''string'')])]),
                (''required'', JArray [JString ''a''])],
             effects = Some [SchemaEffect Input 13 [''property: c'']]\<rparr>"
  have r: "createObjectSchemaFromShape exampleSchemaObject fieldsShape noCatchAll (inputState [])
             = Inr (?s, inputState [])"
    by code_simp
  have d: "distinct (map fst fieldsShape)" by code_simp
  have f: "(''c'', ZodDefault (plain 13) (ZodString (plain 14))) \<in> set fieldsShape"
    by (simp add: fieldsShape_def)
  have m: "isZodType (ZodDefault (plain 13) (ZodString (plain 14))) ''ZodDefault''
           \<and> stype (inputState []) = Input"
    by (simp add: isZodType_def inputState_def)
  from required_field_law [OF r d f exampleSchemaObject_stype] m
  have "JString ''c'' \<notin> set (requiredOf (schema ?s))" by blast
  with r d f show ?thesis by simp
qed

text \<open>
  The claim as stated fails for a sentinel field: \<open>c\<close> is absent from \<open>required\<close>, and its
  node is neither an \<open>optional\<close> nor a \<open>default\<close> wrapper.
\<close>

theorem required_field_law_counterexample:
  "createObjectSchemaFromShape exampleSchemaObject sentinelShape noCatchAll (outputState [])
     = Inr (\<lparr>kind = KSchema,
             schema =
               [(''type'', JString ''object''),
                (''properties'', JObject [(''a'', JObject [(''type'', JString ''string'')])]),
                (''required'', JArray [JString ''a''])],
             effects = None\<rparr>,
            outputState [])
   \<and> (''c'', ZodNever (plain 12)) \<in> set sentinelShape
   \<and> JString ''c'' \<notin> set (requiredOf
         [(''type'', JString ''object''),
          (''properties'', JObject [(''a'', JObject [(''type'', JString ''string'')])]),
          (''required'', JArray [JString ''a''])])
   \<and> \<not> isZodType (ZodNever (plain 12)) ''ZodOptional''
   \<and> \<not> isZodType (ZodNever (plain 12)) ''ZodDefault''"
  by code_simp

text \<open>
  C3. In the fragment of an object shape (its field names distinct), a field whose node
  is the never or undefined sentinel is neither a key of \<open>properties\<close> nor an element of
  \<open>required\<close>.
\<close>

theorem sentinel_fields_omitted:
  assumes res: "createObjectSchemaFromShape cso shp opts st = Inr (sch, st')"
    and dist: "distinct (map fst shp)"
    and field: "(k, z) \<in> set shp"
    and sent: "isZodType z ''ZodNever'' \<or> isZodType z ''ZodUndefined''"
  shows "k \<notin> fst ` set (propertiesOf (schema sch))
       \<and> JString k \<notin> set (requiredOf (schema sch))"
proof -
  from sent have s: "sentinel z" by (simp add: sentinel_def)
  have u: "\<And>z'. (k, z') \<in> set shp \<Longrightarrow> z' = z"
    using distinct_shape_value [OF dist field] .
  from createObjectSchemaFromShape_properties [OF res] u s
  have 1: "k \<notin> fst ` set (propertiesOf (schema sch))"
    by auto
  from createObjectSchemaFromShape_required [OF res] obtain frags st1 where
    "runChildren cso (propertyChildren shp) st = Inr (frags, st1)"
    and r: "\<And>k. JString k \<in> set (requiredOf (schema sch)) \<longleftrightarrow>
            (\<exists>z. (k, z) \<in> set shp \<and> \<not> fieldOptional (stype st1) z)"
    by blast
  from r [of k] u fieldOptional_sentinel [OF s]
  have 2: "JString k \<notin> set (requiredOf (schema sch))"
    by auto
  from 1 2 show ?thesis ..
qed

text \<open>A witness: the shape of the test, with the never field \<open>c\<close>.\<close>

theorem sentinel_fields_omitted_witness:
  "createObjectSchemaFromShape exampleSchemaObject sentinelShape noCatchAll (outputState [])
     = Inr (\<lparr>kind = KSchema,
             schema =
               [(''type'', JString ''object''),
                (''properties'', JObject [(''a'', JObject [(''type'', JString ''string'')])]),
                (''required'', JArray [JString ''a''])],
             effects = None\<rparr>,
            outputState [])
   \<and> distinct (map fst sentinelShape)
   \<and> (''c'', ZodNever (plain 12)) \<in> set sentinelShape
   \<and> isZodType (ZodNever (plain 12)) ''ZodNever''
   \<and> ''c'' \<notin> fst ` set (propertiesOf
         [(''type'', JString ''object''),
          (''properties'', JObject [(''a'', JObject [(''type'', JString ''string'')])]),
          (''required'', JArray [JString ''a''])])
   \<and> JString ''c'' \<notin> set (requiredOf
         [(''type'', JString ''object''),
          (''properties'', JObject [(''a'', JObject [(''type'', JString ''string'')])]),
          (''required'', JArray [JString ''a''])])"
proof -
  let ?s = "\<lparr>kind = KSchema,
             schema =
               [(''type'', JString ''object''),
                (''properties'', JObject [(''a'', JObject [(''type'', JString ''string'')])]),
                (''required'', JArray [JString ''a''])],
             effects = None\<rparr>"
  have r: "createObjectSchemaFromShape exampleSchemaObject sentinelShape noCatchAll
             (outputState []) = Inr (?s, outputState [])"
    by code_simp
  have d: "distinct (map fst sentinelShape)" by code_simp
  have f: "(''c'', ZodNever (plain 12)) \<in> set sentinelShape"
    by (simp add: sentinelShape_def)
  have n: "isZodType (ZodNever (plain 12)) ''ZodNever''"
    by (simp add: isZodType_def)
  from n have "isZodType (ZodNever (plain 12)) ''ZodNever''
      \<or> isZodType (ZodNever (plain 12)) ''ZodUndefined''" ..
  from sentinel_fields_omitted [OF r d f this] r d f n show ?thesis by simp
qed

text \<open>
  C5, as amended. In the fragment of an object shape, if the catch-all is not the never
  sentinel, \<open>additionalProperties\<close> is the fragment the dispatcher returns for the
  catch-all node, whatever the unknown-keys policy; else, if the policy is \<open>strict\<close>,
  it is \<open>false\<close>; otherwise the key is absent.
\<close>

theorem additionalProperties_policy:
  assumes res: "createObjectSchemaFromShape cso shp opts st = Inr (sch, st')"
  shows "if \<not> isZodType (opt_catchAll opts) ''ZodNever''
         then \<exists>props st1 ap.
                mapProperties cso shp st = Inr (props, st1)
              \<and> cso (opt_catchAll opts) st1 [''additional properties''] = Inr (ap, st')
              \<and> map_of (schema sch) ''additionalProperties'' = Some (JObject (schema ap))
         else map_of (schema sch) ''additionalProperties'' =
                (if opt_unknownKeys opts = Some Strict then Some (JBool False) else None)"
proof (rule createObjectSchemaFromShape_facts [OF res])
  fix props st1 ap
  assume p: "mapProperties cso shp st = Inr (props, st1)"
    and c: "if isZodType (opt_catchAll opts) ''ZodNever'' then ap = None \<and> st' = st1
     else \<exists>a. cso (opt_catchAll opts) st1 [''additional properties''] = Inr (a, st')
            \<and> ap = Some a"
    and a: "map_of (schema sch) ''additionalProperties'' =
       (case ap of
          Some a \<Rightarrow> Some (JObject (schema a))
        | None \<Rightarrow> if opt_unknownKeys opts = Some Strict then Some (JBool False) else None)"
  show ?thesis
  proof (cases "isZodType (opt_catchAll opts) ''ZodNever''")
    case True
    with c a show ?thesis by simp
  next
    case False
    with c obtain x where
      "cso (opt_catchAll opts) st1 [''additional properties''] = Inr (x, st')" "ap = Some x"
      by auto
    with False p a show ?thesis by auto
  qed
qed

text \<open>A witness: a strict object without a catch-all.\<close>

theorem additionalProperties_policy_witness:
  "createObjectSchemaFromShape exampleSchemaObject [(''a'', ZodString (plain 10))]
     \<lparr>opt_unknownKeys = Some Strict, opt_catchAll = ZodNever (plain 0)\<rparr> (outputState [])
     = Inr (\<lparr>kind = KSchema,
             schema =
               [(''type'', JString ''object''),
                (''properties'', JObject [(''a'', JObject [(''type'', JString ''string'')])]),
                (''required'', JArray [JString ''a'']),
                (''additionalProperties'', JBool False)],
             effects = None\<rparr>,
            outputState [])
   \<and> map_of
         [(''type'', JString ''object''),
          (''properties'', JObject [(''a'', JObject [(''type'', JString ''string'')])]),
          (''required'', JArray [JString ''a'']),
          (''additionalProperties'', JBool False)] ''additionalProperties''
       = Some (JBool False)"
proof -
  let ?s = "\<lparr>kind = KSchema,
             schema =
               [(''type'', JString ''object''),
                (''properties'', JObject [(''a'', JObject [(''type'', JString ''string'')])]),
                (''required'', JArray [JString ''a'']),
                (''additionalProperties'', JBool False)],
             effects = None\<rparr>"
  let ?o = "\<lparr>opt_unknownKeys = Some Strict, opt_catchAll = ZodNever (plain 0)\<rparr>"
  have r: "createObjectSchemaFromShape exampleSchemaObject [(''a'', ZodString (plain 10))]
             ?o (outputState []) = Inr (?s, outputState [])"
    by code_simp
  have n: "isZodType (opt_catchAll ?o) ''ZodNever''" by (simp add: isZodType_def)
  from additionalProperties_policy [OF r] n
  have "map_of (schema ?s) ''additionalProperties'' = Some (JBool False)"
    by simp
  with r show ?thesis by simp
qed

text \<open>
  The claim as stated fails for a strict object with a catch-all: \<open>additionalProperties\<close>
  is the catch-all's fragment, not \<open>false\<close>.
\<close>

theorem additionalProperties_strict_counterexample:
  "opt_unknownKeys \<lparr>opt_unknownKeys = Some Strict, opt_catchAll = ZodBoolean (plain 20)\<rparr>
     = Some Strict
   \<and> createObjectSchemaFromShape exampleSchemaObject [(''a'', ZodString (plain 10))]
       \<lparr>opt_unknownKeys = Some Strict, opt_catchAll = ZodBoolean (plain 20)\<rparr> (outputState [])
     = Inr (\<lparr>kind = KSchema,
             schema =
               [(''type'', JString ''object''),
                (''properties'', JObject [(''a'', JObject [(''type'', JString ''string'')])]),
                (''required'', JArray [JString ''a'']),
                (''additionalProperties'', JObject [(''type'', JString ''boolean'')])],
             effects = None\<rparr>,
            outputState [])
   \<and> map_of
         [(''type'', JString ''object''),
          (''properties'', JObject [(''a'', JObject [(''type'', JString ''string'')])]),
          (''required'', JArray [JString ''a'']),
          (''additionalProperties'', JObject [(''type'', JString ''boolean'')])]
         ''additionalProperties''
       \<noteq> Some (JBool False)"
  by code_simp

text \<open>
  C6. Registering a node under a name that the table binds to a node of another identity
  fails with \<open>DuplicateRef\<close>; the table, and with it the binding of the name, is what
  it was before the call.
\<close>

theorem duplicate_ref_rejected:
  assumes "map_of (schema_table components) schemaRef = Some component"
    and "\<not> identical (reg_zodSchema component) zodSchema"
  shows "createRegisteredSchema csm zodSchema schemaRef components = (Inl DuplicateRef, components)
       \<and> map_of (schema_table (snd (createRegisteredSchema csm zodSchema schemaRef components)))
            schemaRef = Some component"
  using assms by (simp add: createRegisteredSchema_def)

text \<open>A witness: the name \<open>obj1\<close> is bound to node 1, and node 2 asks for it.\<close>

theorem duplicate_ref_rejected_witness:
  "map_of (schema_table
        \<lparr>schema_table =
           [(''obj1'', \<lparr>reg_schemaObject = [(''type'', JString ''string'')],
                        reg_zodSchema = ZodString (plain 1)\<rparr>)]\<rparr>) ''obj1''
     = Some \<lparr>reg_schemaObject = [(''type'', JString ''string'')],
             reg_zodSchema = ZodString (plain 1)\<rparr>
   \<and> \<not> identical (ZodString (plain 1)) (ZodString (plain 2))
   \<and> createRegisteredSchema stringGenerator (ZodString (plain 2)) ''obj1''
        \<lparr>schema_table =
           [(''obj1'', \<lparr>reg_schemaObject = [(''type'', JString ''string'')],
                        reg_zodSchema = ZodString (plain 1)\<rparr>)]\<rparr>
     = (Inl DuplicateRef,
        \<lparr>schema_table =
           [(''obj1'', \<lparr>reg_schemaObject = [(''type'', JString ''string'')],
                        reg_zodSchema = ZodString (plain 1)\<rparr>)]\<rparr>)"
proof -
  let ?c = "\<lparr>reg_schemaObject = [(''type'', JString ''string'')],
             reg_zodSchema = ZodString (plain 1)\<rparr>"
  let ?t = "\<lparr>schema_table = [(''obj1'', ?c)]\<rparr>"
  have m: "map_of (schema_table ?t) ''obj1'' = Some ?c" by simp
  have i: "\<not> identical (reg_zodSchema ?c) (ZodString (plain 2))"
    by (simp add: identical_def plain_def)
  from duplicate_ref_rejected [OF m i, of stringGenerator] m i show ?thesis by simp
qed

text \<open>
  C7. After a node has been registered under a name, registering the same node under the
  same name again returns the same reference, \<^verbatim>\<open>#/components/schemas/\<close> followed by the
  name, and leaves the table unchanged, whatever generator the second call is given: the
  generator is not run again.
\<close>

theorem registration_idempotent:
  assumes "createRegisteredSchema csm zodSchema schemaRef components = (Inr reference, components1)"
  shows "createRegisteredSchema csm' zodSchema schemaRef components1 = (Inr reference, components1)
       \<and> reference = [(''$ref'', JString (createComponentSchemaRef schemaRef))]"
proof (cases "map_of (schema_table components) schemaRef")
  case None
  with assms obtain schemaOrRef components' where
    c: "components1 = components'\<lparr>schema_table :=
          AList.update schemaRef
            \<lparr>reg_schemaObject = schemaOrRef, reg_zodSchema = zodSchema\<rparr>
            (schema_table components')\<rparr>"
    and r: "reference = [(''$ref'', JString (createComponentSchemaRef schemaRef))]"
    by (auto simp: createRegisteredSchema_def split: prod.splits sum.splits if_splits)
  from c have "map_of (schema_table components1) schemaRef
      = Some \<lparr>reg_schemaObject = schemaOrRef, reg_zodSchema = zodSchema\<rparr>"
    by (simp add: update_conv)
  with r show ?thesis
    by (simp add: createRegisteredSchema_def identical_refl)
next
  case (Some component)
  with assms have "identical (reg_zodSchema component) zodSchema"
    and "components1 = components"
    and "reference = [(''$ref'', JString (createComponentSchemaRef schemaRef))]"
    by (auto simp: createRegisteredSchema_def split: if_splits)
  with Some show ?thesis
    by (simp add: createRegisteredSchema_def)
qed

text \<open>
  A witness: the second registration is given a generator that throws, and succeeds.
\<close>

theorem registration_idempotent_witness:
  "createRegisteredSchema stringGenerator (ZodString (plain 1)) ''obj1'' \<lparr>schema_table = []\<rparr>
     = (Inr [(''$ref'', JString ''#/components/schemas/obj1'')],
        \<lparr>schema_table =
           [(''obj1'', \<lparr>reg_schemaObject = [(''type'', JString ''string'')],
                        reg_zodSchema = ZodString (plain 1)\<rparr>)]\<rparr>)
   \<and> createRegisteredSchema (\<lambda>z c. (Inl UnrecognizedSchemaKind, c)) (ZodString (plain 1)) ''obj1''
        \<lparr>schema_table =
           [(''obj1'', \<lparr>reg_schemaObject = [(''type'', JString ''string'')],
                        reg_zodSchema = ZodString (plain 1)\<rparr>)]\<rparr>
     = (Inr [(''$ref'', JString ''#/components/schemas/obj1'')],
        \<lparr>schema_table =
           [(''obj1'', \<lparr>reg_schemaObject = [(''type'', JString ''string'')],
                        reg_zodSchema = ZodString (plain 1)\<rparr>)]\<rparr>)"
proof -
  let ?t = "\<lparr>schema_table =
           [(''obj1'', \<lparr>reg_schemaObject = [(''type'', JString ''string'')],
                        reg_zodSchema = ZodString (plain 1)\<rparr>)]\<rparr>"
  have f: "createRegisteredSchema stringGenerator (ZodString (plain 1)) ''obj1''
             \<lparr>schema_table = []\<rparr>
           = (Inr [(''$ref'', JString ''#/components/schemas/obj1'')], ?t)"
    by code_simp
  from registration_idempotent [OF f, of "\<lambda>z c. (Inl UnrecognizedSchemaKind, c)"] f
  show ?thesis by simp
qed

text \<open>
  C8, as amended. The dispatcher routes a node to the arm its variant selects. The outcome
  for a leaf arm is that generator's fragment, for a composite arm whatever that
  generator returns, an error included; when no arm matches, the dispatcher throws if the
  node carries no manual \<^verbatim>\<open>type\<close> in its metadata and returns the empty fragment if it
  carries one. So the dispatcher throws exactly when no arm matches and there is no
  manual type, or when the composite generator of the matching arm throws.
\<close>

theorem dispatcher_outcome:
  "createSchema g zodSchema components =
     (case armOf g zodSchema of
        LeafArm generate \<Rightarrow> (Inr (generate zodSchema), components)
      | CompositeArm generate \<Rightarrow> generate zodSchema components
      | NoArm \<Rightarrow>
          if truthy_opt (openapi_field (node_of zodSchema) ''type'')
          then (Inr [], components)
          else (Inl UnrecognizedSchemaKind, components))
   \<and> ((\<exists>e components'. createSchema g zodSchema components = (Inl e, components')) \<longleftrightarrow>
        (armOf g zodSchema = NoArm
           \<and> \<not> truthy_opt (openapi_field (node_of zodSchema) ''type''))
        \<or> (\<exists>generate e components'.
              armOf g zodSchema = CompositeArm generate
            \<and> generate zodSchema components = (Inl e, components')))"
proof
  show 1: "createSchema g zodSchema components =
     (case armOf g zodSchema of
        LeafArm generate \<Rightarrow> (Inr (generate zodSchema), components)
      | CompositeArm generate \<Rightarrow> generate zodSchema components
      | NoArm \<Rightarrow>
          if truthy_opt (openapi_field (node_of zodSchema) ''type'')
          then (Inr [], components)
          else (Inl UnrecognizedSchemaKind, components))"
    by (simp add: createSchema_armOf createSchema_unmatched_def split: arm.splits)
  show "(\<exists>e components'. createSchema g zodSchema components = (Inl e, components')) \<longleftrightarrow>
        (armOf g zodSchema = NoArm
           \<and> \<not> truthy_opt (openapi_field (node_of zodSchema) ''type''))
        \<or> (\<exists>generate e components'.
              armOf g zodSchema = CompositeArm generate
            \<and> generate zodSchema components = (Inl e, components'))"
    unfolding 1 by (cases "armOf g zodSchema") auto
qed

text \<open>
  A witness: a node no arm matches, with a manual type and without, and an array of
  strings.
\<close>

theorem dispatcher_outcome_witness:
  "armOf emptyGenerators (ZodAny \<lparr>zid = 1, openapi = Some [(''type'', JString ''string'')]\<rparr>)
     = NoArm
   \<and> createSchema emptyGenerators
        (ZodAny \<lparr>zid = 1, openapi = Some [(''type'', JString ''string'')]\<rparr>) \<lparr>schema_table = []\<rparr>
     = (Inr [], \<lparr>schema_table = []\<rparr>)
   \<and> createSchema emptyGenerators (ZodAny (plain 2)) \<lparr>schema_table = []\<rparr>
     = (Inl UnrecognizedSchemaKind, \<lparr>schema_table = []\<rparr>)
   \<and> createSchema arrayGenerators (ZodArray (plain 1) (ZodString (plain 2))) \<lparr>schema_table = []\<rparr>
     = (Inr [(''type'', JString ''array''), (''items'', JObject [])], \<lparr>schema_table = []\<rparr>)"
proof -
  let ?n = "ZodAny \<lparr>zid = 1, openapi = Some [(''type'', JString ''string'')]\<rparr>"
  let ?c = "\<lparr>schema_table = []\<rparr>"
  have a: "armOf emptyGenerators ?n = NoArm" by simp
  have t: "truthy_opt (openapi_field (node_of ?n) ''type'')"
    by (simp add: truthy_opt_def openapi_field_def)
  have u: "\<not> truthy_opt (openapi_field (node_of (ZodAny (plain 2))) ''type'')"
    by (simp add: truthy_opt_def openapi_field_def plain_def)
  have 1: "createSchema emptyGenerators ?n ?c = (Inr [], ?c)"
    using dispatcher_outcome [of emptyGenerators ?n ?c] a t by simp
  have 2: "createSchema emptyGenerators (ZodAny (plain 2)) ?c = (Inl UnrecognizedSchemaKind, ?c)"
    using dispatcher_outcome [of emptyGenerators "ZodAny (plain 2)" ?c] u by simp
  have 3: "createSchema arrayGenerators (ZodArray (plain 1) (ZodString (plain 2))) ?c
     = (Inr [(''type'', JString ''array''), (''items'', JObject [])], ?c)"
    by code_simp
  from a 1 2 3 show ?thesis by (intro conjI)
qed

text \<open>
  The claim as stated fails twice. A node that no arm matches and that carries the manual
  fragment \<^verbatim>\<open>{type: 'string'}\<close> yields the empty fragment, not the manual one. And the
  array arm matches an array whose element no arm matches, yet the dispatcher throws:
  the element's error aborts the synthesis of the array.
\<close>

theorem dispatcher_counterexample:
  "\<not> hasGenerator (ZodAny \<lparr>zid = 1, openapi = Some [(''type'', JString ''string'')]\<rparr>)
   \<and> openapi (node_of (ZodAny \<lparr>zid = 1, openapi = Some [(''type'', JString ''string'')]\<rparr>))
     = Some [(''type'', JString ''string'')]
   \<and> createSchema emptyGenerators
        (ZodAny \<lparr>zid = 1, openapi = Some [(''type'', JString ''string'')]\<rparr>) \<lparr>schema_table = []\<rparr>
     = (Inr [], \<lparr>schema_table = []\<rparr>)
   \<and> fst (createSchema emptyGenerators
        (ZodAny \<lparr>zid = 1, openapi = Some [(''type'', JString ''string'')]\<rparr>) \<lparr>schema_table = []\<rparr>)
     \<noteq> Inr [(''type'', JString ''string'')]
   \<and> hasGenerator (ZodArray (plain 1) (ZodAny (plain 2)))
   \<and> createSchema arrayGenerators (ZodArray (plain 1) (ZodAny (plain 2))) \<lparr>schema_table = []\<rparr>
     = (Inl UnrecognizedSchemaKind, \<lparr>schema_table = []\<rparr>)"
  by code_simp

text \<open>
  C10. A shape whose only field is the never sentinel has no field to emit, and yet the
  fragment carries an empty \<open>properties\<close> object: \<^verbatim>\<open>mapProperties\<close> tests the number of
  entries of the shape before it skips the sentinels.
\<close>

theorem empty_properties_emitted:
  "createObjectSchemaFromShape exampleSchemaObject [(''a'', ZodNever (plain 10))] noCatchAll
     (outputState [])
   = Inr (\<lparr>kind = KSchema,
           schema = [(''type'', JString ''object''), (''properties'', JObject [])],
           effects = None\<rparr>,
          outputState [])"
  by code_simp

end
